theory Spec2Isabelle
  imports Main
begin

section \<open>Data model of the LDAP provider client (pkg/auth/providers/ldap/ldap_client.go)\<close>

text \<open>
  Strings are Go strings, that is byte sequences: \<^typ>\<open>string\<close>.  A Go slice is a list; the
  nil slice and the empty slice are both \<open>[]\<close> (the source only takes \<open>len\<close> of them and
  ranges over them).  A Go pointer result that may be nil is an \<open>option\<close>.
\<close>

record EntryAttribute =
  Name :: string
  Values :: "string list"

record Entry =
  DN :: string
  Attributes :: "EntryAttribute list"

record SearchResult =
  Entries :: "Entry list"

datatype SearchScope = ScopeBaseObject | ScopeWholeSubtree

record SearchRequest =
  BaseDN :: string
  Scope :: SearchScope
  Filter :: string
  ReqAttributes :: "string list"

text \<open>
  \<open>v3.Principal\<close>: the fields the client reads or writes.  \<open>ObjectMeta_Name\<close> is
  \<open>ObjectMeta.Name\<close> (also reached as the promoted field \<open>Name\<close>), the principal id.
\<close>

record Principal =
  ObjectMeta_Name :: string
  DisplayName :: string
  LoginName :: string
  PrincipalType :: string

definition emptyPrincipal :: Principal where
  \<comment> \<open>The zero value \<open>v3.Principal{}\<close>.\<close>
  "emptyPrincipal =
     \<lparr>ObjectMeta_Name = [], DisplayName = [], LoginName = [], PrincipalType = []\<rparr>"

record BasicLogin =
  Username :: string
  Password :: string

text \<open>\<open>v3.LdapConfig\<close>: the fields the client reads.\<close>

record LdapConfig =
  ServiceAccountDistinguishedName :: string
  ServiceAccountPassword :: string
  UserLoginFilter :: string
  UserObjectClass :: string
  UserLoginAttribute :: string
  UserNameAttribute :: string
  UserMemberAttribute :: string
  UserSearchBase :: string
  UserSearchAttribute :: string
  UserSearchFilter :: string
  UserEnabledAttribute :: string
  UserDisabledBitMask :: int
  GroupObjectClass :: string
  GroupNameAttribute :: string
  GroupDNAttribute :: string
  GroupMemberUserAttribute :: string
  GroupMemberMappingAttribute :: string
  GroupSearchBase :: string
  GroupSearchAttribute :: string
  GroupSearchFilter :: string
  NestedGroupMembershipEnabled :: bool
  SearchUsingServiceAccount :: bool
  Enabled :: bool
  AccessMode :: string
  AllowedPrincipalIDs :: "string list"

text \<open>\<open>ldap.ConfigAttributes\<close>, as the composite literal in the nested-group step fills it.\<close>

record ConfigAttributes =
  ca_GroupMemberMappingAttribute :: string
  ca_GroupNameAttribute :: string
  ca_GroupObjectClass :: string
  ca_GroupSearchAttribute :: string
  ca_ObjectClass :: string
  ca_ProviderName :: string
  ca_UserLoginAttribute :: string
  ca_UserNameAttribute :: string
  ca_UserObjectClass :: string

record ldapProvider =
  providerName :: string
  userScope :: string
  groupScope :: string
  samlSearchProvider :: bool

subsection \<open>Errors\<close>

text \<open>
  Go \<open>error\<close> values.  \<open>LdapError code\<close> is a \<open>*ldapv3.Error\<close> with that result code;
  \<open>APIError code msg cause\<close> is what \<open>httperror.NewAPIError\<close> (no cause) and
  \<open>httperror.WrapAPIError\<close> build; \<open>Errorf msg\<close> is a plain error made by \<open>fmt.Errorf\<close>
  or \<open>errors.New\<close> (of any dynamic type other than \<open>*ldapv3.Error\<close>); \<open>Wrapf msg e\<close> is
  \<open>fmt.Errorf\<close> with \<open>%w\<close> (or \<open>errors.Wrapf\<close>) around \<open>e\<close>, \<open>msg\<close> the text that
  precedes the text of \<open>e\<close> (for \<open>errors.Wrapf\<close>: its formatted message and \<open>": "\<close>).
\<close>

datatype ErrorCode =
  MissingRequired | InvalidOption | Unauthorized | PermissionDenied | ServerError | NotFound

datatype error =
  LdapError nat
| APIError ErrorCode string "error option"
| Errorf string
| Wrapf string error

definition NewAPIError :: "ErrorCode \<Rightarrow> string \<Rightarrow> error" where
  "NewAPIError code msg = APIError code msg None"

definition WrapAPIError :: "error option \<Rightarrow> ErrorCode \<Rightarrow> string \<Rightarrow> error" where
  "WrapAPIError err code msg = APIError code msg err"

definition LDAPResultNoSuchObject :: nat where
  "LDAPResultNoSuchObject = 32"

definition LDAPResultInvalidCredentials :: nat where
  "LDAPResultInvalidCredentials = 49"

subsection \<open>Outcome of a call\<close>

text \<open>
  A call returns its results, panics (a nil dereference or an index out of range in the
  source), or does not return.
\<close>

datatype 'a outcome = Return 'a | Panic | Diverge

subsection \<open>The directory connection\<close>

text \<open>
  \<open>ldapv3.Client\<close> is an interface; \<open>'c\<close> is the state of the connection and of the
  directory behind it, and every operation returns the state it leaves.
\<close>

record 'c Client =
  Bind :: "string \<Rightarrow> string \<Rightarrow> 'c \<Rightarrow> error option \<times> 'c"
  Search :: "SearchRequest \<Rightarrow> 'c \<Rightarrow> (SearchResult option \<times> error option) \<times> 'c"
  SearchWithPaging ::
    "SearchRequest \<Rightarrow> nat \<Rightarrow> 'c \<Rightarrow> (SearchResult option \<times> error option) \<times> 'c"
  Close :: "'c \<Rightarrow> 'c"

subsection \<open>Functions the client calls that live outside this file\<close>

text \<open>
  Helpers of \<open>pkg/auth/providers/common/ldap\<close>, of the go-ldap library, of the Go standard
  library, methods of \<open>v3.LdapConfig\<close> and the user manager: parameters of the model.
  \<open>ErrorString\<close> is the \<open>Error()\<close> method of error values, the text that \<open>%v\<close> prints.
\<close>

record deps =
  SanitizeAttr :: "string \<Rightarrow> string"
  EscapeFilter :: "string \<Rightarrow> string"
  CompileFilter :: "string \<Rightarrow> error option"
  IsErrorWithCode :: "error \<Rightarrow> nat \<Rightarrow> bool"
  ParseDN :: "string \<Rightarrow> error + (string \<times> string) list list"
  GetAttributeValues :: "Entry \<Rightarrow> string \<Rightarrow> string list"
  EqualFold :: "string \<Rightarrow> string \<Rightarrow> bool"
  IsType :: "EntryAttribute list \<Rightarrow> string \<Rightarrow> bool"
  HasPermission :: "EntryAttribute list \<Rightarrow> string \<Rightarrow> string \<Rightarrow> int \<Rightarrow> bool"
  AttributesToPrincipal ::
    "EntryAttribute list \<Rightarrow> string \<Rightarrow> string \<Rightarrow> string \<Rightarrow> string \<Rightarrow> string \<Rightarrow> string
       \<Rightarrow> string \<Rightarrow> string \<Rightarrow> Principal option \<times> error option"
  GetUserExternalID :: "string \<Rightarrow> string \<Rightarrow> string"
  GetAttributeValuesByName :: "EntryAttribute list \<Rightarrow> string \<Rightarrow> string list"
  FindNonDuplicateBetweenGroupPrincipals ::
    "Principal list \<Rightarrow> Principal list \<Rightarrow> Principal list \<Rightarrow> Principal list"
  GetUserSearchAttributes :: "LdapConfig \<Rightarrow> string list \<Rightarrow> string list"
  GetGroupSearchAttributes :: "LdapConfig \<Rightarrow> string list \<Rightarrow> string list"
  CheckAccess :: "string \<Rightarrow> string list \<Rightarrow> string \<Rightarrow> Principal list \<Rightarrow> bool \<times> error option"
  OpenLdapName :: string
  ErrorString :: "error \<Rightarrow> string"

definition ObjectClass :: string where
  \<comment> \<open>Modelled from the spec: the package constant \<open>ObjectClass\<close> is declared outside this
      file; the filters of the spec read \<open>(objectClass=<class>)\<close>.\<close>
  "ObjectClass = ''objectClass''"

definition NewWholeSubtreeSearchRequest :: "string \<Rightarrow> string \<Rightarrow> string list \<Rightarrow> SearchRequest" where
  \<comment> \<open>Modelled from the spec: \<open>ldap.NewWholeSubtreeSearchRequest\<close> is declared outside this
      file; a request has a base DN, a scope (here the whole subtree), a filter and the
      requested attributes.\<close>
  "NewWholeSubtreeSearchRequest base flt attrs =
     \<lparr>BaseDN = base, Scope = ScopeWholeSubtree, Filter = flt, ReqAttributes = attrs\<rparr>"

definition NewBaseObjectSearchRequest :: "string \<Rightarrow> string \<Rightarrow> string list \<Rightarrow> SearchRequest" where
  \<comment> \<open>Modelled from the spec: \<open>ldap.NewBaseObjectSearchRequest\<close> is declared outside this
      file; the base-object shape of a request (single DN, no recursion).\<close>
  "NewBaseObjectSearchRequest base flt attrs =
     \<lparr>BaseDN = base, Scope = ScopeBaseObject, Filter = flt, ReqAttributes = attrs\<rparr>"

subsection \<open>Go library functions written out\<close>

fun Split :: "string \<Rightarrow> char \<Rightarrow> string list" where
  \<comment> \<open>\<open>strings.Split(s, sep)\<close> for a one-byte separator: every piece between separators,
      empty pieces kept; a string without the separator is returned as one piece.\<close>
  "Split [] sep = [[]]"
| "Split (x # xs) sep =
     (if x = sep then [] # Split xs sep
      else (case Split xs sep of [] \<Rightarrow> [[x]] | w # ws \<Rightarrow> (x # w) # ws))"

definition index1 :: "'a list \<Rightarrow> 'a option" where
  \<comment> \<open>\<open>xs[1]\<close>; \<open>None\<close> is the index-out-of-range panic.\<close>
  "index1 xs = (case xs of _ # y # _ \<Rightarrow> Some y | _ \<Rightarrow> None)"

section \<open>searchLdap\<close>

definition permissionCheck :: "deps \<Rightarrow> EntryAttribute list \<Rightarrow> LdapConfig \<Rightarrow> bool" where
  "permissionCheck d attributes config =
     HasPermission d attributes (UserObjectClass config) (UserEnabledAttribute config)
       (UserDisabledBitMask config)"

definition searchErrorSurfaced :: "error option \<Rightarrow> bool" where
  \<comment> \<open>The test \<open>ok && ldapErr.ResultCode != ldapv3.LDAPResultNoSuchObject\<close> under
      \<open>if err != nil\<close>: \<open>ok\<close> is whether \<open>err\<close> is a \<open>*ldapv3.Error\<close>.\<close>
  "searchErrorSurfaced err =
     (case err of
        None \<Rightarrow> False
      | Some (LdapError code) \<Rightarrow> code \<noteq> LDAPResultNoSuchObject
      | Some _ \<Rightarrow> False)"

definition externalIDOf :: "deps \<Rightarrow> ldapProvider \<Rightarrow> LdapConfig \<Rightarrow> string \<Rightarrow> Entry \<Rightarrow> string" where
  \<comment> \<open>The external id of a result entry: its DN, replaced under a SAML search provider by
      the first value of the login attribute (users) or of the group DN attribute (groups).\<close>
  "externalIDOf d p config entityType entry =
     (if samlSearchProvider p then
        (if EqualFold d ''user'' entityType then
           (case GetAttributeValuesByName d (Attributes entry) (UserLoginAttribute config) of
              [] \<Rightarrow> DN entry | v # _ \<Rightarrow> v)
         else
           (case GetAttributeValuesByName d (Attributes entry) (GroupDNAttribute config) of
              [] \<Rightarrow> DN entry | v # _ \<Rightarrow> v))
      else DN entry)"

fun entriesToPrincipals ::
  "deps \<Rightarrow> ldapProvider \<Rightarrow> LdapConfig \<Rightarrow> string \<Rightarrow> string \<Rightarrow> Entry list \<Rightarrow> Principal list
     \<Rightarrow> (Principal list \<times> error option) outcome" where
  \<comment> \<open>The loop over \<open>results.Entries\<close>; the last argument is \<open>principals\<close> so far.\<close>
  "entriesToPrincipals d p config scope entityType [] principals = Return (principals, None)"
| "entriesToPrincipals d p config scope entityType (entry # rest) principals =
     (case AttributesToPrincipal d (Attributes entry)
             (externalIDOf d p config entityType entry) scope (providerName p)
             (UserObjectClass config) (UserNameAttribute config) (UserLoginAttribute config)
             (GroupObjectClass config) (GroupNameAttribute config) of
        (_, Some err) \<Rightarrow> Return ([], Some err)
      | (None, None) \<Rightarrow> Panic
      | (Some princ, None) \<Rightarrow>
          entriesToPrincipals d p config scope entityType rest (principals @ [princ]))"

definition searchRequestFor :: "deps \<Rightarrow> string \<Rightarrow> string \<Rightarrow> LdapConfig \<Rightarrow> SearchRequest" where
  \<comment> \<open>The request \<open>searchLdap\<close> builds for an entity type.\<close>
  "searchRequestFor d query entityType config =
     (if EqualFold d ''user'' entityType then
        NewWholeSubtreeSearchRequest (UserSearchBase config) query
          (GetUserSearchAttributes d config [ObjectClass])
      else
        NewWholeSubtreeSearchRequest
          (if GroupSearchBase config \<noteq> [] then GroupSearchBase config else UserSearchBase config)
          query (GetGroupSearchAttributes d config [ObjectClass]))"

definition searchLdap ::
  "deps \<Rightarrow> ldapProvider \<Rightarrow> 'c Client \<Rightarrow> string \<Rightarrow> string \<Rightarrow> LdapConfig \<Rightarrow> 'c
     \<Rightarrow> ((Principal list \<times> error option) \<times> 'c) outcome" where
  "searchLdap d p lConn query scope config c =
     (case index1 (Split scope (CHR ''_'')) of
        None \<Rightarrow> Panic
      | Some entityType \<Rightarrow>
          (case Bind lConn (GetUserExternalID d (ServiceAccountDistinguishedName config) [])
                  (ServiceAccountPassword config) c of
             (Some err, c1) \<Rightarrow>
               Return (([], Some (Wrapf ''ldap: error binding service account: '' err)), c1)
           | (None, c1) \<Rightarrow>
               (case SearchWithPaging lConn (searchRequestFor d query entityType config) 1000 c1 of
                  ((results, err), c2) \<Rightarrow>
                    if searchErrorSurfaced err then
                      Return (([], Some (Wrapf (''ldap: error searching for query '' @ query
                                            @ '':, error: '') (the err))), c2)
                    else
                      (case results of
                         None \<Rightarrow> Panic
                       | Some rs \<Rightarrow>
                           (case entriesToPrincipals d p config scope entityType (Entries rs) [] of
                              Return r \<Rightarrow> Return (r, c2)
                            | Panic \<Rightarrow> Panic
                            | Diverge \<Rightarrow> Diverge)))))"

definition obind :: "'a outcome \<Rightarrow> ('a \<Rightarrow> 'b outcome) \<Rightarrow> 'b outcome" where
  \<comment> \<open>Sequencing: a panic or a call that does not return ends the caller too.\<close>
  "obind m f = (case m of Return x \<Rightarrow> f x | Panic \<Rightarrow> Panic | Diverge \<Rightarrow> Diverge)"

section \<open>searchUser and searchGroup\<close>

definition userSearchClause :: "deps \<Rightarrow> string \<Rightarrow> string \<Rightarrow> string" where
  \<comment> \<open>What one iteration of the loop over \<open>srchAttributes\<close> appends to \<open>srchAttrs\<close>.\<close>
  "userSearchClause d name attr =
     (if attr = ''uidNumber'' then
        ''('' @ EscapeFilter d attr @ ''='' @ EscapeFilter d name @ '')''
      else
        ''('' @ EscapeFilter d attr @ ''='' @ EscapeFilter d name @ ''*)'')"

definition searchUserQuery :: "deps \<Rightarrow> string \<Rightarrow> LdapConfig \<Rightarrow> string" where
  "searchUserQuery d name config =
     (let srchAttributes = Split (UserSearchAttribute config) (CHR ''|'');
          query = ''(&('' @ ObjectClass @ ''='' @ SanitizeAttr d (UserObjectClass config) @ '')'';
          srchAttrs = foldl (\<lambda>acc attr. acc @ userSearchClause d name attr) ''(|'' srchAttributes
      in query @ srchAttrs @ '')'' @ UserSearchFilter config @ '')'')"

definition searchUser ::
  "deps \<Rightarrow> ldapProvider \<Rightarrow> 'c Client \<Rightarrow> string \<Rightarrow> LdapConfig \<Rightarrow> 'c
     \<Rightarrow> ((Principal list \<times> error option) \<times> 'c) outcome" where
  "searchUser d p lConn name config c =
     (if UserSearchFilter config \<noteq> [] \<and> CompileFilter d (UserSearchFilter config) \<noteq> None then
        Return (([], Some (Errorf ''invalid user search filter'')), c)
      else searchLdap d p lConn (searchUserQuery d name config) (userScope p) config c)"

fun Sprintf :: "string \<Rightarrow> string list \<Rightarrow> string option" where
  \<comment> \<open>\<open>fmt.Sprintf\<close> with string operands, for formats whose only verbs are \<open>%s\<close> and
      \<open>%%\<close>; \<open>None\<close> for every other format (flags, widths and other verbs are not
      modelled).\<close>
  "Sprintf [] [] = Some []"
| "Sprintf [] (a # as) =
     Some (''%!(EXTRA string='' @ a @ concat (map (\<lambda>b. '', string='' @ b) as) @ '')'')"
| "Sprintf (c # fs) as =
     (if c \<noteq> CHR ''%'' then map_option ((#) c) (Sprintf fs as)
      else (case fs of
              [] \<Rightarrow> None
            | v # fs' \<Rightarrow>
                if v = CHR ''%'' then map_option ((#) (CHR ''%'')) (Sprintf fs' as)
                else if v = CHR ''s'' then
                  (case as of
                     [] \<Rightarrow> map_option ((@) ''%!s(MISSING)'') (Sprintf fs' [])
                   | a # as' \<Rightarrow> map_option ((@) a) (Sprintf fs' as'))
                else None))"

definition searchGroupQuery :: "deps \<Rightarrow> string \<Rightarrow> LdapConfig \<Rightarrow> string option" where
  \<comment> \<open>The query of \<open>searchGroup\<close>; \<open>None\<close> when \<open>searchFmt\<close> is a format that \<open>Sprintf\<close>
      above does not model.\<close>
  "searchGroupQuery d name config =
     (let searchFmt =
            (if GroupSearchAttribute config = ''gidNumber''
             then SanitizeAttr d (GroupSearchAttribute config) @ ''=%s''
             else SanitizeAttr d (GroupSearchAttribute config) @ ''=*%s*'')
      in map_option
           (\<lambda>clause. ''(&('' @ ObjectClass @ ''='' @ SanitizeAttr d (GroupObjectClass config)
                       @ '')('' @ clause @ '')'' @ GroupSearchFilter config @ '')'')
           (Sprintf searchFmt [EscapeFilter d name]))"

definition searchGroup ::
  "deps \<Rightarrow> ldapProvider \<Rightarrow> 'c Client \<Rightarrow> string \<Rightarrow> LdapConfig \<Rightarrow> 'c
     \<Rightarrow> ((Principal list \<times> error option) \<times> 'c) outcome option" where
  "searchGroup d p lConn name config c =
     (if GroupSearchFilter config \<noteq> [] \<and> CompileFilter d (GroupSearchFilter config) \<noteq> None then
        Some (Return (([], Some (Errorf ''invalid group search filter'')), c))
      else map_option (\<lambda>query. searchLdap d p lConn query (groupScope p) config c)
             (searchGroupQuery d name config))"

section \<open>Resolving the groups of a user: getPrincipalsFromSearchResult\<close>

type_synonym groupMap = "string \<rightharpoonup> bool"

text \<open>
  \<open>ldap.GatherParentGroups\<close> is declared outside this file; the resolver takes it as a
  parameter.  It receives the group map and the nested principals and returns them updated,
  next to its error.
\<close>

type_synonym 'c gatherer =
  "Principal \<Rightarrow> string \<Rightarrow> string \<Rightarrow> ConfigAttributes \<Rightarrow> 'c Client \<Rightarrow> groupMap \<Rightarrow> Principal list
     \<Rightarrow> string list \<Rightarrow> 'c \<Rightarrow> ((error option \<times> groupMap \<times> Principal list) \<times> 'c) outcome"

definition userMemberAttributeOf ::
  "deps \<Rightarrow> Entry \<Rightarrow> SearchResult \<Rightarrow> LdapConfig \<Rightarrow> string list option" where
  \<comment> \<open>\<open>userMemberAttribute\<close>; \<open>None\<close> is the panic of \<open>opResult.Entries[0]\<close>.\<close>
  "userMemberAttributeOf d entry opResult config =
     (let userMemberAttribute = GetAttributeValues d entry (UserMemberAttribute config)
      in if length userMemberAttribute = 0 then
           (case Entries opResult of
              [] \<Rightarrow> None
            | e # _ \<Rightarrow> Some (GetAttributeValues d e (UserMemberAttribute config)))
         else Some userMemberAttribute)"

definition forwardQuery :: "deps \<Rightarrow> LdapConfig \<Rightarrow> string list \<Rightarrow> string" where
  \<comment> \<open>The query for one batch of group DNs.\<close>
  "forwardQuery d config batchGroupDN =
     (let flt = ''('' @ ObjectClass @ ''='' @ SanitizeAttr d (GroupObjectClass config) @ '')'';
          query = foldl (\<lambda>q gdn. q @ ''('' @ GroupDNAttribute config @ ''=''
                                    @ EscapeFilter d gdn @ '')'') ''(|'' batchGroupDN @ '')''
      in ''(&'' @ flt @ query @ '')'')"

definition slice :: "'a list \<Rightarrow> nat \<Rightarrow> nat \<Rightarrow> 'a list" where
  \<comment> \<open>\<open>xs[i:j]\<close> for \<open>i \<le> j \<le> len(xs)\<close>.\<close>
  "slice xs i j = take (j - i) (drop i xs)"

function forwardLoop ::
  "deps \<Rightarrow> ldapProvider \<Rightarrow> 'c Client \<Rightarrow> LdapConfig \<Rightarrow> string list \<Rightarrow> nat \<Rightarrow> Principal list \<Rightarrow> 'c
     \<Rightarrow> ((Principal list \<times> error option) \<times> 'c) outcome" where
  \<comment> \<open>The loop \<open>for i := 0; i < len(userMemberAttribute); i += 50\<close>, from index \<open>i\<close> with
      \<open>groupPrincipals\<close> so far; it returns \<open>groupPrincipals\<close> and the error that ended it.\<close>
  "forwardLoop d p lConn config userMemberAttribute i groupPrincipals c =
     (if i < length userMemberAttribute then
        (let batchGroupDN =
               slice userMemberAttribute i (min (i + 50) (length userMemberAttribute))
         in obind (searchLdap d p lConn (forwardQuery d config batchGroupDN) (groupScope p) config c)
              (\<lambda>((userMemberGroupPrincipals, err), c').
                 (case err of
                    Some e \<Rightarrow> Return ((groupPrincipals @ userMemberGroupPrincipals, Some e), c')
                  | None \<Rightarrow>
                      forwardLoop d p lConn config userMemberAttribute (i + 50)
                        (groupPrincipals @ userMemberGroupPrincipals) c')))
      else Return ((groupPrincipals, None), c))"
  by pat_completeness auto
termination
  by (relation "measure (\<lambda>(d, p, lConn, config, uma, i, gps, c). length uma - i)") auto

declare forwardLoop.simps [simp del]

definition groupMemberUserAttributeOf ::
  "deps \<Rightarrow> Entry \<Rightarrow> SearchResult \<Rightarrow> LdapConfig \<Rightarrow> string list option" where
  \<comment> \<open>\<open>groupMemberUserAttribute\<close>; \<open>None\<close> is the panic of \<open>opResult.Entries[0]\<close>.\<close>
  "groupMemberUserAttributeOf d entry opResult config =
     (let groupMemberUserAttribute = GetAttributeValues d entry (GroupMemberUserAttribute config)
      in if length groupMemberUserAttribute = 0 then
           (case Entries opResult of
              [] \<Rightarrow> None
            | e # _ \<Rightarrow>
                (case find (\<lambda>attr. Name attr = GroupMemberUserAttribute config) (Attributes e) of
                   None \<Rightarrow> Some groupMemberUserAttribute
                 | Some attr \<Rightarrow> Some (Values attr)))
         else Some groupMemberUserAttribute)"

definition reverseQuery :: "deps \<Rightarrow> LdapConfig \<Rightarrow> string \<Rightarrow> string" where
  \<comment> \<open>The query by the membership-mapping attribute, for a member value.\<close>
  "reverseQuery d config member =
     ''(&('' @ SanitizeAttr d (GroupMemberMappingAttribute config) @ ''='' @ EscapeFilter d member
       @ '')('' @ ObjectClass @ ''='' @ SanitizeAttr d (GroupObjectClass config) @ ''))''"

definition reverseStep ::
  "deps \<Rightarrow> ldapProvider \<Rightarrow> 'c Client \<Rightarrow> Entry \<Rightarrow> SearchResult \<Rightarrow> LdapConfig \<Rightarrow> Principal list \<Rightarrow> 'c
     \<Rightarrow> ((Principal list \<times> error option) \<times> 'c) outcome" where
  \<comment> \<open>From \<open>groupMemberUserAttribute := ...\<close> to the end of \<open>if len(groupMemberUserAttribute) > 0\<close>:
      \<open>groupPrincipals\<close> after it and the error of its search.\<close>
  "reverseStep d p lConn entry opResult config groupPrincipals c =
     (case groupMemberUserAttributeOf d entry opResult config of
        None \<Rightarrow> Panic
      | Some [] \<Rightarrow> Return ((groupPrincipals, None), c)
      | Some (member # _) \<Rightarrow>
          obind (searchLdap d p lConn (reverseQuery d config member) (groupScope p) config c)
            (\<lambda>((newGroupPrincipals, err), c').
               Return ((groupPrincipals
                          @ FindNonDuplicateBetweenGroupPrincipals d newGroupPrincipals
                              groupPrincipals [], err), c')))"

definition fallbackStep ::
  "deps \<Rightarrow> ldapProvider \<Rightarrow> 'c Client \<Rightarrow> LdapConfig \<Rightarrow> string \<Rightarrow> Principal list \<Rightarrow> 'c
     \<Rightarrow> ((Principal list \<times> error option \<times> bool) \<times> 'c) outcome" where
  \<comment> \<open>The block \<open>if len(groupPrincipals) == 0\<close>: \<open>groupPrincipals\<close> after it, the error of
      its search and \<open>freeipaNonEntrydnApproach\<close>.\<close>
  "fallbackStep d p lConn config userDN groupPrincipals c =
     (if length groupPrincipals = 0 then
        obind (searchLdap d p lConn (reverseQuery d config userDN) (groupScope p) config c)
          (\<lambda>((groupPrincipals', err), c').
             Return ((groupPrincipals', err, err = None), c'))
      else Return ((groupPrincipals, None, False), c))"

definition nestedGate :: "ldapProvider \<Rightarrow> LdapConfig \<Rightarrow> bool \<Rightarrow> bool" where
  \<comment> \<open>The condition of the nested-group block.\<close>
  "nestedGate p config freeipaNonEntrydnApproach =
     ((NestedGroupMembershipEnabled config \<and> groupScope p = ''openldap_group'')
        \<or> freeipaNonEntrydnApproach)"

fun gatherAll ::
  "'c gatherer \<Rightarrow> string \<Rightarrow> string \<Rightarrow> ConfigAttributes \<Rightarrow> 'c Client \<Rightarrow> string list
     \<Rightarrow> Principal list \<Rightarrow> groupMap \<Rightarrow> Principal list \<Rightarrow> 'c
     \<Rightarrow> ((error option \<times> groupMap \<times> Principal list) \<times> 'c) outcome" where
  \<comment> \<open>The loop \<open>for _, groupPrincipal := range groupPrincipals\<close> up to its first error.\<close>
  "gatherAll gather searchDomain gscope commonConfig lConn searchAttributes [] gm nested c =
     Return ((None, gm, nested), c)"
| "gatherAll gather searchDomain gscope commonConfig lConn searchAttributes (groupPrincipal # rest)
     gm nested c =
     obind (gather groupPrincipal searchDomain gscope commonConfig lConn gm nested
              searchAttributes c)
       (\<lambda>((err, gm', nested'), c').
          (case err of
             Some e \<Rightarrow> Return ((Some e, gm', nested'), c')
           | None \<Rightarrow>
               gatherAll gather searchDomain gscope commonConfig lConn searchAttributes rest
                 gm' nested' c'))"

definition commonConfigOf :: "deps \<Rightarrow> LdapConfig \<Rightarrow> ConfigAttributes" where
  "commonConfigOf d config =
     \<lparr>ca_GroupMemberMappingAttribute = GroupMemberMappingAttribute config,
      ca_GroupNameAttribute = GroupNameAttribute config,
      ca_GroupObjectClass = GroupObjectClass config,
      ca_GroupSearchAttribute = GroupSearchAttribute config,
      ca_ObjectClass = ObjectClass,
      ca_ProviderName = OpenLdapName d,
      ca_UserLoginAttribute = UserLoginAttribute config,
      ca_UserNameAttribute = UserNameAttribute config,
      ca_UserObjectClass = UserObjectClass config\<rparr>"

definition nestedSearchDomain :: "LdapConfig \<Rightarrow> string" where
  \<comment> \<open>\<open>searchDomain\<close> of the nested-group block.\<close>
  "nestedSearchDomain config =
     (if GroupSearchBase config \<noteq> [] then GroupSearchBase config else UserSearchBase config)"

definition nestedSearchAttributes :: "LdapConfig \<Rightarrow> string list" where
  \<comment> \<open>\<open>searchAttributes\<close> of the nested-group block.\<close>
  "nestedSearchAttributes config =
     [GroupMemberUserAttribute config, GroupMemberMappingAttribute config, ObjectClass,
      GroupObjectClass config, UserLoginAttribute config, GroupNameAttribute config,
      GroupSearchAttribute config]"

definition nestedStep ::
  "deps \<Rightarrow> ldapProvider \<Rightarrow> 'c gatherer \<Rightarrow> 'c Client \<Rightarrow> LdapConfig \<Rightarrow> Principal \<Rightarrow> Principal list
     \<Rightarrow> 'c \<Rightarrow> ((Principal \<times> Principal list \<times> error option) \<times> 'c) outcome" where
  \<comment> \<open>The body of the nested-group block and the final return after it.\<close>
  "nestedStep d p gather lConn config userPrincipal groupPrincipals c =
     obind (gatherAll gather (nestedSearchDomain config) (groupScope p) (commonConfigOf d config)
              lConn (nestedSearchAttributes config) groupPrincipals Map.empty [] c)
       (\<lambda>((err, gm, nestedGroupPrincipals), c').
          (case err of
             Some e \<Rightarrow> Return ((userPrincipal, groupPrincipals, None), c')
           | None \<Rightarrow>
               Return ((userPrincipal,
                        groupPrincipals
                          @ FindNonDuplicateBetweenGroupPrincipals d nestedGroupPrincipals
                              groupPrincipals [],
                        None), c')))"

definition resolveGroups ::
  "deps \<Rightarrow> ldapProvider \<Rightarrow> 'c gatherer \<Rightarrow> 'c Client \<Rightarrow> Entry \<Rightarrow> SearchResult \<Rightarrow> LdapConfig
     \<Rightarrow> Principal \<Rightarrow> string list \<Rightarrow> 'c
     \<Rightarrow> ((Principal \<times> Principal list \<times> error option) \<times> 'c) outcome" where
  \<comment> \<open>\<open>getPrincipalsFromSearchResult\<close> from the batch loop to its end, once the user principal
      and \<open>userMemberAttribute\<close> are known.\<close>
  "resolveGroups d p gather lConn entry opResult config userPrincipal userMemberAttribute c =
     obind (forwardLoop d p lConn config userMemberAttribute 0 [] c)
       (\<lambda>((gps1, err1), c1).
          (case err1 of
             Some e \<Rightarrow> Return ((userPrincipal, gps1, Some e), c1)
           | None \<Rightarrow>
               obind (reverseStep d p lConn entry opResult config gps1 c1)
                 (\<lambda>((gps2, err2), c2).
                    (case err2 of
                       Some e \<Rightarrow> Return ((userPrincipal, gps2, Some e), c2)
                     | None \<Rightarrow>
                         obind (fallbackStep d p lConn config (DN entry) gps2 c2)
                           (\<lambda>((gps3, err3, freeipaNonEntrydnApproach), c3).
                              (case err3 of
                                 Some e \<Rightarrow> Return ((userPrincipal, gps3, Some e), c3)
                               | None \<Rightarrow>
                                   if nestedGate p config freeipaNonEntrydnApproach then
                                     nestedStep d p gather lConn config userPrincipal gps3 c3
                                   else Return ((userPrincipal, gps3, None), c3)))))))"

definition getPrincipalsFromSearchResult ::
  "deps \<Rightarrow> ldapProvider \<Rightarrow> 'c gatherer \<Rightarrow> 'c Client \<Rightarrow> SearchResult \<Rightarrow> SearchResult \<Rightarrow> LdapConfig
     \<Rightarrow> 'c \<Rightarrow> ((Principal \<times> Principal list \<times> error option) \<times> 'c) outcome" where
  "getPrincipalsFromSearchResult d p gather lConn result opResult config c =
     (case Entries result of
        [] \<Rightarrow> Panic
      | entry # _ \<Rightarrow>
          if \<not> permissionCheck d (Attributes entry) config then
            Return ((emptyPrincipal, [], Some (Errorf ''permission denied'')), c)
          else
            (case userMemberAttributeOf d entry opResult config of
               None \<Rightarrow> Panic
             | Some userMemberAttribute \<Rightarrow>
                 if \<not> IsType d (Attributes entry) (UserObjectClass config) then
                   Return ((emptyPrincipal, [], None), c)
                 else
                   (case AttributesToPrincipal d (Attributes entry) (DN entry) (userScope p)
                           (providerName p) (UserObjectClass config) (UserNameAttribute config)
                           (UserLoginAttribute config) (GroupObjectClass config)
                           (GroupNameAttribute config) of
                      (_, Some err) \<Rightarrow> Return ((emptyPrincipal, [], Some err), c)
                    | (None, None) \<Rightarrow> Panic
                    | (Some userPrincipal, None) \<Rightarrow>
                        resolveGroups d p gather lConn entry opResult config userPrincipal
                          userMemberAttribute c)))"

section \<open>loginUser\<close>

definition AuthenticateServiceAccountUser ::
  "deps \<Rightarrow> string \<Rightarrow> string \<Rightarrow> string \<Rightarrow> 'c Client \<Rightarrow> 'c \<Rightarrow> error option \<times> 'c" where
  \<comment> \<open>Modelled from the spec: \<open>ldap.AuthenticateServiceAccountUser\<close> is declared outside this
      file.  "Bind as service account.  Failure here is a server/configuration error"; the
      bound name is derived as \<open>searchLdap\<close> derives it for its own service-account bind.\<close>
  "AuthenticateServiceAccountUser d serviceAccountPassword serviceAccountUsername
       defaultLoginDomain lConn c =
     (case Bind lConn (GetUserExternalID d serviceAccountUsername defaultLoginDomain)
             serviceAccountPassword c of
        (None, c') \<Rightarrow> (None, c')
      | (Some err, c') \<Rightarrow>
          (Some (WrapAPIError (Some err) ServerError ''server error while authenticating''), c'))"

definition operationalAttrList :: "string list" where
  "operationalAttrList = [''1.1'', ''+'', ''*'']"

definition loginFilter :: "deps \<Rightarrow> BasicLogin \<Rightarrow> LdapConfig \<Rightarrow> string" where
  \<comment> \<open>\<open>filter\<close> of \<open>loginUser\<close>.\<close>
  "loginFilter d credentials config =
     ''(&('' @ ObjectClass @ ''='' @ SanitizeAttr d (UserObjectClass config) @ '')(''
       @ SanitizeAttr d (UserLoginAttribute config) @ ''='' @ EscapeFilter d (Username credentials)
       @ '')'' @ UserLoginFilter config @ '')''"

definition loginSearchRequest :: "deps \<Rightarrow> BasicLogin \<Rightarrow> LdapConfig \<Rightarrow> SearchRequest" where
  \<comment> \<open>\<open>searchRequest\<close> of \<open>loginUser\<close>.\<close>
  "loginSearchRequest d credentials config =
     NewWholeSubtreeSearchRequest (UserSearchBase config) (loginFilter d credentials config)
       (GetUserSearchAttributes d config [ObjectClass])"

definition searchOpRequestOf :: "deps \<Rightarrow> LdapConfig \<Rightarrow> string \<Rightarrow> SearchRequest" where
  \<comment> \<open>\<open>searchOpRequest\<close> of \<open>loginUser\<close>.\<close>
  "searchOpRequestOf d config userDN =
     NewWholeSubtreeSearchRequest userDN
       (''('' @ ObjectClass @ ''='' @ SanitizeAttr d (UserObjectClass config) @ '')'')
       operationalAttrList"

type_synonym 'c login_outcome =
  "((Principal \<times> Principal list \<times> error option) \<times> 'c) outcome"

definition loginFail :: "error \<Rightarrow> 'c \<Rightarrow> 'c login_outcome" where
  \<comment> \<open>\<open>return v3.Principal{}, nil, err\<close>.\<close>
  "loginFail err c = Return ((emptyPrincipal, [], Some err), c)"

definition loginAfterBind ::
  "deps \<Rightarrow> ldapProvider \<Rightarrow> 'c gatherer \<Rightarrow> 'c Client \<Rightarrow> LdapConfig \<Rightarrow> SearchResult \<Rightarrow> string \<Rightarrow> 'c
     \<Rightarrow> 'c login_outcome" where
  \<comment> \<open>\<open>loginUser\<close> from \<open>searchOpRequest := ...\<close> to its end.\<close>
  "loginAfterBind d p gather lConn config result userDN c =
     (case Search lConn (searchOpRequestOf d config userDN) c of
        ((_, Some err), c1) \<Rightarrow>
          loginFail (WrapAPIError (Some err) Unauthorized ''authentication failed'') c1
      | ((None, None), c1) \<Rightarrow> Panic
      | ((Some opResult, None), c1) \<Rightarrow>
          if length (Entries opResult) < 1 then
            loginFail (WrapAPIError None Unauthorized
                         (''Cannot locate user information for ''
                            @ Filter (searchOpRequestOf d config userDN))) c1
          else
            obind (getPrincipalsFromSearchResult d p gather lConn result opResult config c1)
              (\<lambda>((userPrincipal, groupPrincipals, err), c2).
                 (case err of
                    Some e \<Rightarrow> loginFail e c2
                  | None \<Rightarrow>
                      (case CheckAccess d (AccessMode config) (AllowedPrincipalIDs config)
                              (ObjectMeta_Name userPrincipal) groupPrincipals of
                         (_, Some e) \<Rightarrow> loginFail e c2
                       | (allowed, None) \<Rightarrow>
                           if \<not> allowed then
                             loginFail (NewAPIError PermissionDenied ''Permission denied'') c2
                           else Return ((userPrincipal, groupPrincipals, None), c2)))))"

definition loginAfterSearch ::
  "deps \<Rightarrow> ldapProvider \<Rightarrow> 'c gatherer \<Rightarrow> 'c Client \<Rightarrow> BasicLogin \<Rightarrow> LdapConfig \<Rightarrow> SearchResult
     \<Rightarrow> Entry \<Rightarrow> 'c \<Rightarrow> 'c login_outcome" where
  \<comment> \<open>\<open>loginUser\<close> from \<open>userDN := result.Entries[0].DN\<close>, for the first entry of the result.\<close>
  "loginAfterSearch d p gather lConn credentials config result entry0 c =
     (let userDN = DN entry0
      in (case Bind lConn userDN (Password credentials) c of
            (Some err, c1) \<Rightarrow>
              if IsErrorWithCode d err LDAPResultInvalidCredentials then
                loginFail (WrapAPIError (Some err) Unauthorized ''Unauthorized'') c1
              else
                loginFail (WrapAPIError (Some err) ServerError
                             ''server error while authenticating'') c1
          | (None, c1) \<Rightarrow>
              if SearchUsingServiceAccount config then
                (case AuthenticateServiceAccountUser d (ServiceAccountPassword config)
                        (ServiceAccountDistinguishedName config) [] lConn c1 of
                   (Some err, c2) \<Rightarrow>
                     loginFail (WrapAPIError (Some err) Unauthorized ''authentication failed'') c2
                 | (None, c2) \<Rightarrow> loginAfterBind d p gather lConn config result userDN c2)
              else loginAfterBind d p gather lConn config result userDN c1))"

definition loginOnSearchResult ::
  "deps \<Rightarrow> ldapProvider \<Rightarrow> 'c gatherer \<Rightarrow> 'c Client \<Rightarrow> BasicLogin \<Rightarrow> LdapConfig \<Rightarrow> SearchRequest
     \<Rightarrow> (SearchResult option \<times> error option) \<times> 'c \<Rightarrow> 'c login_outcome" where
  \<comment> \<open>\<open>loginUser\<close> from \<open>if err == nil\<close> after the user search to its end, for what
      \<open>lConn.Search(searchRequest)\<close> returned and the state it left.\<close>
  "loginOnSearchResult d p gather lConn credentials config searchRequest res =
     (case res of
        ((_, Some err), c2) \<Rightarrow>
          loginFail (WrapAPIError (Some err) Unauthorized ''Unauthorized'') c2
      | ((None, None), c2) \<Rightarrow> Panic
      | ((Some result, None), c2) \<Rightarrow>
          (case Entries result of
             [] \<Rightarrow>
               loginFail
                 (WrapAPIError
                    (Some (Errorf (''cannot locate user information for ''
                                     @ Filter searchRequest)))
                    Unauthorized ''Unauthorized'') c2
           | [entry0] \<Rightarrow>
               loginAfterSearch d p gather lConn credentials config result entry0 c2
           | _ # _ # _ \<Rightarrow>
               loginFail
                 (WrapAPIError
                    (Some (Errorf ''ldap user search found more than one result''))
                    Unauthorized ''Unauthorized'') c2))"

definition loginUser ::
  "deps \<Rightarrow> ldapProvider \<Rightarrow> 'c gatherer \<Rightarrow> 'c Client \<Rightarrow> BasicLogin \<Rightarrow> LdapConfig \<Rightarrow> 'c
     \<Rightarrow> 'c login_outcome" where
  "loginUser d p gather lConn credentials config c =
     (if Password credentials = [] then
        loginFail (NewAPIError MissingRequired ''password not provided'') c
      else
        (case AuthenticateServiceAccountUser d (ServiceAccountPassword config)
                (ServiceAccountDistinguishedName config) [] lConn c of
           (Some err, c1) \<Rightarrow> loginFail err c1
         | (None, c1) \<Rightarrow>
             if UserLoginFilter config \<noteq> [] \<and> CompileFilter d (UserLoginFilter config) \<noteq> None then
               loginFail (WrapAPIError (CompileFilter d (UserLoginFilter config)) InvalidOption
                            ''invalid userLoginFilter'') c1
             else
               loginOnSearchResult d p gather lConn credentials config
                 (loginSearchRequest d credentials config)
                 (Search lConn (loginSearchRequest d credentials config) c1)))"

section \<open>getPrincipal\<close>

definition entityFilter :: "deps \<Rightarrow> LdapConfig \<Rightarrow> string \<Rightarrow> string" where
  \<comment> \<open>\<open>filter\<close> of \<open>getPrincipal\<close>.\<close>
  "entityFilter d config entityType =
     (if EqualFold d ''user'' entityType then
        ''('' @ ObjectClass @ ''='' @ SanitizeAttr d (UserObjectClass config) @ '')''
      else ''('' @ ObjectClass @ ''='' @ SanitizeAttr d (GroupObjectClass config) @ '')'')"

definition kindOf :: "deps \<Rightarrow> string \<Rightarrow> string" where
  \<comment> \<open>\<open>kind\<close> of the principal formed from the DN alone.\<close>
  "kindOf d entityType =
     (if EqualFold d ''user'' entityType then ''user''
      else if EqualFold d ''group'' entityType then ''group'' else [])"

definition principalFromDN :: "deps \<Rightarrow> string \<Rightarrow> string \<Rightarrow> string \<Rightarrow> Principal" where
  "principalFromDN d scope distinguishedName entityType =
     \<lparr>ObjectMeta_Name = scope @ ''://'' @ distinguishedName,
      DisplayName = distinguishedName,
      LoginName = distinguishedName,
      PrincipalType = kindOf d entityType\<rparr>"

definition getPrincipalSearch ::
  "deps \<Rightarrow> ldapProvider \<Rightarrow> 'c Client \<Rightarrow> string \<Rightarrow> string \<Rightarrow> string \<Rightarrow> LdapConfig \<Rightarrow> 'c
     \<Rightarrow> ((Principal option \<times> error option) \<times> 'c) outcome" where
  \<comment> \<open>\<open>getPrincipal\<close> after a successful bind, up to its return.\<close>
  "getPrincipalSearch d p lConn distinguishedName scope entityType config c =
     (let attrs = (if EqualFold d ''user'' entityType
                   then GetUserSearchAttributes d config [ObjectClass]
                   else GetGroupSearchAttributes d config [ObjectClass]);
          flt = entityFilter d config entityType;
          search = NewBaseObjectSearchRequest distinguishedName flt attrs
      in (case Search lConn search c of
            ((_, Some err), c1) \<Rightarrow>
              (case err of
                 LdapError code \<Rightarrow>
                   if code = 32 then
                     Return ((None, Some (NewAPIError NotFound (distinguishedName @ '' not found''))),
                             c1)
                   else
                     Return ((None, Some (WrapAPIError
                                (Some (Wrapf (''server returned error for search '' @ BaseDN search
                                                @ '' '' @ flt @ '': '' @ ErrorString d err
                                                @ '': '') err))
                                ServerError ''Internal server error'')), c1)
               | _ \<Rightarrow>
                   Return ((None, Some (WrapAPIError
                              (Some (Wrapf (''server returned error for search '' @ BaseDN search
                                              @ '' '' @ flt @ '': '' @ ErrorString d err
                                              @ '': '') err))
                              ServerError ''Internal server error'')), c1))
          | ((None, None), c1) \<Rightarrow> Panic
          | ((Some result, None), c1) \<Rightarrow>
              (case Entries result of
                 [] \<Rightarrow> Return ((None, Some (Errorf ''no identities can be retrieved'')), c1)
               | [entry] \<Rightarrow>
                   if \<not> permissionCheck d (Attributes entry) config then
                     Return ((None, Some (Errorf ''permission denied'')), c1)
                   else
                     (case AttributesToPrincipal d (Attributes entry) distinguishedName scope
                             (providerName p) (UserObjectClass config) (UserNameAttribute config)
                             (UserLoginAttribute config) (GroupObjectClass config)
                             (GroupNameAttribute config) of
                        (_, Some err) \<Rightarrow> Return ((None, Some err), c1)
                      | (princ, None) \<Rightarrow> Return ((princ, None), c1))
               | _ # _ # _ \<Rightarrow> Return ((None, Some (Errorf ''more than one result found'')), c1))))"

definition dnAttributes :: "(string \<times> string) list list \<Rightarrow> EntryAttribute list" where
  \<comment> \<open>\<open>attribs\<close>: one entry attribute per attribute of every RDN of the parsed DN.\<close>
  "dnAttributes rdns = map (\<lambda>(t, v). \<lparr>Name = t, Values = [v]\<rparr>) (concat rdns)"

definition closing ::
  "'c Client \<Rightarrow> ('a \<times> 'c) outcome \<Rightarrow> ('a \<times> 'c option) outcome" where
  \<comment> \<open>\<open>defer lConn.Close()\<close>: the connection is closed when the function returns.\<close>
  "closing lConn r = obind r (\<lambda>(x, c). Return (x, Some (Close lConn c)))"

definition getPrincipal ::
  "deps \<Rightarrow> ldapProvider \<Rightarrow> (LdapConfig \<Rightarrow> 'p \<Rightarrow> error + 'c) \<Rightarrow> 'c Client \<Rightarrow> string \<Rightarrow> string
     \<Rightarrow> LdapConfig \<Rightarrow> 'p \<Rightarrow> ((Principal option \<times> error option) \<times> 'c option) outcome" where
  \<comment> \<open>\<open>connect\<close> is \<open>ldap.Connect\<close>: an error, or the state of a new connection whose
      operations are \<open>lConn\<close>.  The result carries the state the connection is left in
      (\<open>None\<close> when none was opened).\<close>
  "getPrincipal d p connect lConn distinguishedName scope config caPool =
     (if scope \<noteq> userScope p \<and> scope \<noteq> groupScope p then
        Return ((None, Some (Errorf ''invalid scope'')), None)
      else
        (case ParseDN d distinguishedName of
           Inl err \<Rightarrow> Return ((None, Some err), None)
         | Inr rdns \<Rightarrow>
             (let attribs = dnAttributes rdns
              in if \<not> IsType d attribs scope \<and> \<not> permissionCheck d attribs config then
                   Return ((None, None), None)
                 else
                   (case index1 (Split scope (CHR ''_'')) of
                      None \<Rightarrow> Panic
                    | Some entityType \<Rightarrow>
                        (case connect config caPool of
                           Inl err \<Rightarrow> Return ((None, Some err), None)
                         | Inr c \<Rightarrow>
                             closing lConn
                               (case Bind lConn
                                       (GetUserExternalID d (ServiceAccountDistinguishedName config) [])
                                       (ServiceAccountPassword config) c of
                                  (Some err, c1) \<Rightarrow>
                                    if IsErrorWithCode d err LDAPResultInvalidCredentials
                                         \<and> Enabled config then
                                      Return ((Some (principalFromDN d scope distinguishedName
                                                       entityType), None), c1)
                                    else
                                      Return ((None, Some (Wrapf ''Error in ldap bind: '' err)), c1)
                                | (None, c1) \<Rightarrow>
                                    getPrincipalSearch d p lConn distinguishedName scope entityType
                                      config c1))))))"

section \<open>Observing the operations issued on a connection\<close>

datatype call =
  BindCall string string
| SearchCall SearchRequest
| SearchWithPagingCall SearchRequest nat
| CloseCall

definition recording :: "'c Client \<Rightarrow> ('c \<times> call list) Client" where
  \<comment> \<open>A client that behaves as \<open>lConn\<close> and keeps the list of the operations issued on it.\<close>
  "recording lConn =
     \<lparr>Bind = (\<lambda>dn pw (c, tr).
         (case Bind lConn dn pw c of (e, c') \<Rightarrow> (e, (c', tr @ [BindCall dn pw])))),
      Search = (\<lambda>req (c, tr).
         (case Search lConn req c of (r, c') \<Rightarrow> (r, (c', tr @ [SearchCall req])))),
      SearchWithPaging = (\<lambda>req n (c, tr).
         (case SearchWithPaging lConn req n c of
            (r, c') \<Rightarrow> (r, (c', tr @ [SearchWithPagingCall req n])))),
      Close = (\<lambda>(c, tr). (Close lConn c, tr @ [CloseCall]))\<rparr>"

definition isSearchCall :: "call \<Rightarrow> bool" where
  "isSearchCall k = (case k of SearchCall _ \<Rightarrow> True | SearchWithPagingCall _ _ \<Rightarrow> True | _ \<Rightarrow> False)"

definition recordingConnect ::
  "(LdapConfig \<Rightarrow> 'p \<Rightarrow> error + 'c) \<Rightarrow> LdapConfig \<Rightarrow> 'p \<Rightarrow> error + ('c \<times> call list)" where
  \<comment> \<open>\<open>connect\<close> for a recording client: a new connection has no operation issued yet.\<close>
  "recordingConnect connect config caPool =
     (case connect config caPool of Inl err \<Rightarrow> Inl err | Inr c \<Rightarrow> Inr (c, []))"

section \<open>The go-ldap filter escaping\<close>

text \<open>
  \<open>ldapv3.EscapeFilter\<close> of the go-ldap library, written out: the bytes \<open>(\<close>, \<open>)\<close>,
  \<open>*\<close>, backslash (0x5C), NUL and every byte above 0x7F are replaced by a backslash and
  the two lower-case hexadecimal digits of the byte; every other byte is kept.
\<close>

definition mustEscape :: "char \<Rightarrow> bool" where
  "mustEscape c =
     ((of_char c :: nat) > 127 \<or> c = CHR ''('' \<or> c = CHR '')'' \<or> c = CHR 0x5C
        \<or> c = CHR ''*'' \<or> c = CHR 0x00)"

definition hexDigit :: "nat \<Rightarrow> char" where
  "hexDigit n = ''0123456789abcdef'' ! (n mod 16)"

definition escapeByte :: "char \<Rightarrow> string" where
  "escapeByte c =
     (if mustEscape c
      then [CHR 0x5C, hexDigit ((of_char c :: nat) div 16), hexDigit ((of_char c :: nat) mod 16)]
      else [c])"

definition goEscapeFilter :: "string \<Rightarrow> string" where
  "goEscapeFilter s = concat (map escapeByte s)"

definition hexValue :: "char \<Rightarrow> nat option" where
  \<comment> \<open>The value of a lower-case hexadecimal digit.\<close>
  "hexValue c =
     (let n = (of_char c :: nat)
      in if 48 \<le> n \<and> n \<le> 57 then Some (n - 48)
         else if 97 \<le> n \<and> n \<le> 102 then Some (n - 87)
         else None)"

fun unescapeFilter :: "string \<Rightarrow> string option" where
  \<comment> \<open>How a directory reads an escaped assertion value: a backslash and two hexadecimal
      digits stand for one literal byte; a bare \<open>(\<close>, \<open>)\<close>, \<open>*\<close> or NUL is not a literal
      (\<open>None\<close>).\<close>
  "unescapeFilter [] = Some []"
| "unescapeFilter (c # cs) =
     (if c = CHR 0x5C then
        (case cs of
           h # l # rest \<Rightarrow>
             (case (hexValue h, hexValue l) of
                (Some a, Some b) \<Rightarrow>
                  map_option ((#) (char_of (16 * a + b))) (unescapeFilter rest)
              | _ \<Rightarrow> None)
         | _ \<Rightarrow> None)
      else if c = CHR ''('' \<or> c = CHR '')'' \<or> c = CHR ''*'' \<or> c = CHR 0x00 then None
      else map_option ((#) c) (unescapeFilter cs))"

section \<open>Nested groups: GatherParentGroups and the de-duplication\<close>

definition specFindNonDuplicate ::
  "Principal list \<Rightarrow> Principal list \<Rightarrow> Principal list \<Rightarrow> Principal list" where
  \<comment> \<open>Modelled from the spec: \<open>ldap.FindNonDuplicateBetweenGroupPrincipals\<close> is declared
      outside this file.  "Set-deduplication keyed by Principal id (a pairwise de-dup pass
      against the already-accumulated set, not a global set ...: first-seen wins)": the new
      principals whose id is not among the accumulated ones, appended to the third argument.\<close>
  "specFindNonDuplicate newGroupPrincipals groupPrincipals nonDupGroupPrincipals =
     nonDupGroupPrincipals
       @ filter (\<lambda>gp. ObjectMeta_Name gp \<notin> set (map ObjectMeta_Name groupPrincipals))
           newGroupPrincipals"

fun afterScheme :: "string \<Rightarrow> string option" where
  \<comment> \<open>What follows the first \<open>://\<close> of a string.\<close>
  "afterScheme [] = None"
| "afterScheme (c # cs) =
     (if take 3 (c # cs) = ''://'' then Some (drop 3 (c # cs)) else afterScheme cs)"

definition identifyingValue :: "Principal \<Rightarrow> string" where
  \<comment> \<open>Modelled from the spec: "\<open>id\<close> ... constructed as \<open>scope://externalID\<close>"; the group's
      own identifying value is the external id of its principal id.\<close>
  "identifyingValue gp =
     (case afterScheme (ObjectMeta_Name gp) of None \<Rightarrow> ObjectMeta_Name gp | Some v \<Rightarrow> v)"

definition parentRequest ::
  "deps \<Rightarrow> string \<Rightarrow> ConfigAttributes \<Rightarrow> string list \<Rightarrow> Principal \<Rightarrow> SearchRequest" where
  \<comment> \<open>Modelled from the spec: the query for the parents of a group, "groups whose
      membership-mapping attribute equals this group's own identifying value", a subtree
      search under the search domain.\<close>
  "parentRequest d searchDomain config searchAttributes gp =
     NewWholeSubtreeSearchRequest searchDomain
       (''(&('' @ SanitizeAttr d (ca_GroupMemberMappingAttribute config) @ ''=''
          @ EscapeFilter d (identifyingValue gp) @ '')('' @ ca_ObjectClass config @ ''=''
          @ SanitizeAttr d (ca_GroupObjectClass config) @ ''))'')
       searchAttributes"

definition groupPrincipalOf ::
  "deps \<Rightarrow> string \<Rightarrow> ConfigAttributes \<Rightarrow> Entry \<Rightarrow> Principal option" where
  \<comment> \<open>Modelled from the spec: an entry of a result mapped to a group principal; \<open>None\<close>
      for an entry that does not map.\<close>
  "groupPrincipalOf d gscope config e =
     (case AttributesToPrincipal d (Attributes e) (DN e) gscope (ca_ProviderName config)
             (ca_UserObjectClass config) (ca_UserNameAttribute config)
             (ca_UserLoginAttribute config) (ca_GroupObjectClass config)
             (ca_GroupNameAttribute config) of
        (Some pr, None) \<Rightarrow> Some pr
      | _ \<Rightarrow> None)"

definition parentPrincipals ::
  "deps \<Rightarrow> string \<Rightarrow> ConfigAttributes \<Rightarrow> Entry list \<Rightarrow> Principal list" where
  \<comment> \<open>Modelled from the spec: the entries of a result mapped to group principals; an entry
      that does not map is skipped ("callers scanning heterogeneous result sets are not
      aborted").\<close>
  "parentPrincipals d gscope config entries =
     List.map_filter (groupPrincipalOf d gscope config) entries"

fun discover :: "Principal list \<Rightarrow> groupMap \<Rightarrow> groupMap \<times> Principal list" where
  \<comment> \<open>Modelled from the spec: the visited set keyed by principal id.  The principals not yet
      in the map, in order, each entered into the map when first seen.\<close>
  "discover [] gm = (gm, [])"
| "discover (g # gs) gm =
     (if gm (ObjectMeta_Name g) \<noteq> None then discover gs gm
      else (case discover gs (gm(ObjectMeta_Name g \<mapsto> True)) of
              (gm', new) \<Rightarrow> (gm', g # new)))"

definition resultEntries :: "SearchResult option \<Rightarrow> Entry list" where
  "resultEntries r = (case r of None \<Rightarrow> [] | Some rs \<Rightarrow> Entries rs)"

partial_function (option) gatherWorklist ::
  "deps \<Rightarrow> string \<Rightarrow> string \<Rightarrow> ConfigAttributes \<Rightarrow> 'c Client \<Rightarrow> string list \<Rightarrow> Principal list
     \<Rightarrow> groupMap \<Rightarrow> Principal list \<Rightarrow> 'c
     \<Rightarrow> ((error option \<times> groupMap \<times> Principal list) \<times> 'c) option" where
  \<comment> \<open>Modelled from the spec: "a worklist/BFS over the membership graph": the first group of
      the worklist is queried for its parents; every parent not yet visited is marked, added
      to the nested principals and put on the worklist.  A failed query ends the traversal
      with its error.  \<open>None\<close>: the traversal does not end.\<close>
  "gatherWorklist d searchDomain gscope config lConn searchAttributes worklist gm nested c =
     (case worklist of
        [] \<Rightarrow> Some ((None, gm, nested), c)
      | g # rest \<Rightarrow>
          (case SearchWithPaging lConn (parentRequest d searchDomain config searchAttributes g)
                  1000 c of
             ((r, Some err), c') \<Rightarrow> Some ((Some err, gm, nested), c')
           | ((r, None), c') \<Rightarrow>
               (case discover (parentPrincipals d gscope config (resultEntries r)) gm of
                  (gm', new) \<Rightarrow>
                    gatherWorklist d searchDomain gscope config lConn searchAttributes
                      (rest @ new) gm' (nested @ new) c')))"

definition GatherParentGroups :: "deps \<Rightarrow> 'c gatherer" where
  \<comment> \<open>Modelled from the spec: \<open>ldap.GatherParentGroups\<close> is declared outside this file.
      "For every group already found, query for its parent groups ..., using a visited-set
      keyed by group Principal id to guarantee termination on cyclic or redundant group graphs
      and to avoid re-querying the same group twice.  Every newly discovered parent group is
      itself traversed."  A group already visited is not queried again.\<close>
  "GatherParentGroups d groupPrincipal searchDomain gscope config lConn gm nested
       searchAttributes c =
     (if gm (ObjectMeta_Name groupPrincipal) \<noteq> None then Return ((None, gm, nested), c)
      else
        (case gatherWorklist d searchDomain gscope config lConn searchAttributes [groupPrincipal]
                (gm(ObjectMeta_Name groupPrincipal \<mapsto> True)) nested c of
           None \<Rightarrow> Diverge
         | Some r \<Rightarrow> Return r))"

section \<open>The specification's wording, for comparison\<close>

definition prefixGroupQuery :: "deps \<Rightarrow> string \<Rightarrow> LdapConfig \<Rightarrow> string" where
  \<comment> \<open>The group query as the specification words it: the prefix match \<open>attr=name*\<close> of the
      user query on the single group search attribute, the exact match for \<open>gidNumber\<close>.\<close>
  "prefixGroupQuery d name config =
     ''(&('' @ ObjectClass @ ''='' @ SanitizeAttr d (GroupObjectClass config) @ '')(''
       @ SanitizeAttr d (GroupSearchAttribute config) @ ''='' @ EscapeFilter d name
       @ (if GroupSearchAttribute config = ''gidNumber'' then [] else ''*'')
       @ '')'' @ GroupSearchFilter config @ '')''"

fun batches :: "nat \<Rightarrow> 'a list \<Rightarrow> 'a list list" where
  \<comment> \<open>The partition of a list into consecutive batches of \<open>Suc n\<close> elements, the last one
      possibly shorter.\<close>
  "batches n [] = []"
| "batches n (x # xs) = take (Suc n) (x # xs) # batches n (drop n xs)"

fun searchBatches ::
  "deps \<Rightarrow> ldapProvider \<Rightarrow> 'c Client \<Rightarrow> LdapConfig \<Rightarrow> string list list \<Rightarrow> Principal list \<Rightarrow> 'c
     \<Rightarrow> ((Principal list \<times> error option) \<times> 'c) outcome" where
  \<comment> \<open>One group query per batch, in order, the results appended to those so far; the first
      error ends it.\<close>
  "searchBatches d p lConn config [] groupPrincipals c = Return ((groupPrincipals, None), c)"
| "searchBatches d p lConn config (b # bs) groupPrincipals c =
     obind (searchLdap d p lConn (forwardQuery d config b) (groupScope p) config c)
       (\<lambda>((found, err), c').
          (case err of
             Some e \<Rightarrow> Return ((groupPrincipals @ found, Some e), c')
           | None \<Rightarrow> searchBatches d p lConn config bs (groupPrincipals @ found) c'))"

section \<open>A concrete directory, for evaluating the model\<close>

text \<open>
  An instance of the helper functions and a small OpenLDAP-style directory: the user
  \<open>alice\<close>, the group \<open>eng\<close> she is a member of, and the group \<open>staff\<close> that has
  \<open>eng\<close> as a member.
\<close>

definition exAttrValues :: "EntryAttribute list \<Rightarrow> string \<Rightarrow> string list" where
  "exAttrValues attrs nm =
     (case find (\<lambda>a. Name a = nm) attrs of None \<Rightarrow> [] | Some a \<Rightarrow> Values a)"

definition exIsType :: "EntryAttribute list \<Rightarrow> string \<Rightarrow> bool" where
  "exIsType attrs cls = (cls \<in> set (exAttrValues attrs ''objectClass''))"

definition exFirstOr :: "string list \<Rightarrow> string \<Rightarrow> string" where
  "exFirstOr vs dflt = (case vs of [] \<Rightarrow> dflt | v # _ \<Rightarrow> v)"

definition exAttributesToPrincipal ::
  "EntryAttribute list \<Rightarrow> string \<Rightarrow> string \<Rightarrow> string \<Rightarrow> string \<Rightarrow> string \<Rightarrow> string
     \<Rightarrow> string \<Rightarrow> string \<Rightarrow> Principal option \<times> error option" where
  "exAttributesToPrincipal attrs dnStr scope provider userObjectClass userNameAttribute
       userLoginAttribute groupObjectClass groupNameAttribute =
     (if exIsType attrs userObjectClass then
        (Some \<lparr>ObjectMeta_Name = scope @ ''://'' @ dnStr,
               DisplayName = exFirstOr (exAttrValues attrs userNameAttribute) dnStr,
               LoginName = exFirstOr (exAttrValues attrs userLoginAttribute) dnStr,
               PrincipalType = ''user''\<rparr>, None)
      else if exIsType attrs groupObjectClass then
        (Some \<lparr>ObjectMeta_Name = scope @ ''://'' @ dnStr,
               DisplayName = exFirstOr (exAttrValues attrs groupNameAttribute) dnStr,
               LoginName = exFirstOr (exAttrValues attrs groupNameAttribute) dnStr,
               PrincipalType = ''group''\<rparr>, None)
      else (None, Some (Errorf (''Failed to get attributes for '' @ dnStr))))"

definition exCompileFilter :: "string \<Rightarrow> error option" where
  \<comment> \<open>A filter must be enclosed in parentheses; 201 is the library's filter-compile code.\<close>
  "exCompileFilter s =
     (if s \<noteq> [] \<and> hd s = CHR ''('' \<and> last s = CHR '')'' then None else Some (LdapError 201))"

fun exErrorString :: "error \<Rightarrow> string" where
  "exErrorString (LdapError code) = ''LDAP Result Code''"
| "exErrorString (APIError code msg cause) = msg"
| "exErrorString (Errorf msg) = msg"
| "exErrorString (Wrapf msg e) = msg @ exErrorString e"

definition exDeps :: deps where
  "exDeps =
     \<lparr>SanitizeAttr = filter (\<lambda>c. c \<in> set ''abcdefghijklmnopqrstuvwxyzABCDEFGHIJKLMNOPQRSTUVWXYZ0123456789-''),
      EscapeFilter = goEscapeFilter,
      CompileFilter = exCompileFilter,
      IsErrorWithCode = (\<lambda>e code. e = LdapError code),
      ParseDN = (\<lambda>s. if s = [] then Inl (LdapError 34) else Inr [[(''dn'', s)]]),
      GetAttributeValues = (\<lambda>e nm. exAttrValues (Attributes e) nm),
      EqualFold = (\<lambda>a b. a = b),
      IsType = exIsType,
      HasPermission = (\<lambda>attrs cls enabledAttr mask. True),
      AttributesToPrincipal = exAttributesToPrincipal,
      GetUserExternalID = (\<lambda>u domain. u),
      GetAttributeValuesByName = exAttrValues,
      FindNonDuplicateBetweenGroupPrincipals = specFindNonDuplicate,
      GetUserSearchAttributes = (\<lambda>config extra. extra @ [''uid'', ''cn'', ''memberOf'']),
      GetGroupSearchAttributes = (\<lambda>config extra. extra @ [''cn'', ''member'']),
      CheckAccess = (\<lambda>mode allowed nm gps. (True, None)),
      OpenLdapName = ''openldap'',
      ErrorString = exErrorString\<rparr>"

definition exProvider :: ldapProvider where
  "exProvider =
     \<lparr>providerName = ''openldap'', userScope = ''openldap_user'',
      groupScope = ''openldap_group'', samlSearchProvider = False\<rparr>"

definition exConfig :: LdapConfig where
  "exConfig =
     \<lparr>ServiceAccountDistinguishedName = ''cn=svc,dc=x'',
      ServiceAccountPassword = ''secret'',
      UserLoginFilter = [],
      UserObjectClass = ''inetOrgPerson'',
      UserLoginAttribute = ''uid'',
      UserNameAttribute = ''cn'',
      UserMemberAttribute = ''memberOf'',
      UserSearchBase = ''dc=x'',
      UserSearchAttribute = ''uid|cn|uidNumber'',
      UserSearchFilter = [],
      UserEnabledAttribute = [],
      UserDisabledBitMask = 0,
      GroupObjectClass = ''groupOfNames'',
      GroupNameAttribute = ''cn'',
      GroupDNAttribute = ''entryDN'',
      GroupMemberUserAttribute = ''entryDN'',
      GroupMemberMappingAttribute = ''member'',
      GroupSearchBase = [],
      GroupSearchAttribute = ''cn'',
      GroupSearchFilter = [],
      NestedGroupMembershipEnabled = False,
      SearchUsingServiceAccount = False,
      Enabled = True,
      AccessMode = ''unrestricted'',
      AllowedPrincipalIDs = []\<rparr>"

definition exAlice :: Entry where
  "exAlice =
     \<lparr>DN = ''uid=alice,dc=x'',
      Attributes = [\<lparr>Name = ''objectClass'', Values = [''inetOrgPerson'']\<rparr>,
                    \<lparr>Name = ''uid'', Values = [''alice'']\<rparr>,
                    \<lparr>Name = ''cn'', Values = [''Alice'']\<rparr>]\<rparr>"

definition exEng :: Entry where
  "exEng =
     \<lparr>DN = ''cn=eng,dc=x'',
      Attributes = [\<lparr>Name = ''objectClass'', Values = [''groupOfNames'']\<rparr>,
                    \<lparr>Name = ''cn'', Values = [''eng'']\<rparr>,
                    \<lparr>Name = ''member'', Values = [''uid=alice,dc=x'']\<rparr>]\<rparr>"

definition exStaff :: Entry where
  "exStaff =
     \<lparr>DN = ''cn=staff,dc=x'',
      Attributes = [\<lparr>Name = ''objectClass'', Values = [''groupOfNames'']\<rparr>,
                    \<lparr>Name = ''cn'', Values = [''staff'']\<rparr>,
                    \<lparr>Name = ''member'', Values = [''cn=eng,dc=x'']\<rparr>]\<rparr>"

definition exAnswer :: "SearchRequest \<Rightarrow> SearchResult option \<times> error option" where
  \<comment> \<open>The directory's answer to a search, by its filter.\<close>
  "exAnswer req =
     (if Filter req = ''(&(objectClass=inetOrgPerson)(uid=alice))''
         \<or> Filter req = ''(objectClass=inetOrgPerson)'' then
        (Some \<lparr>Entries = [exAlice]\<rparr>, None)
      else if Filter req = ''(&(member=uid=alice,dc=x)(objectClass=groupOfNames))'' then
        (Some \<lparr>Entries = [exEng]\<rparr>, None)
      else if Filter req = ''(&(member=cn=eng,dc=x)(objectClass=groupOfNames))'' then
        (Some \<lparr>Entries = [exStaff]\<rparr>, None)
      else (Some \<lparr>Entries = []\<rparr>, None))"

definition exClient :: "unit Client" where
  \<comment> \<open>A connection to that directory on which every bind succeeds.\<close>
  "exClient =
     \<lparr>Bind = (\<lambda>dn pw c. (None, c)),
      Search = (\<lambda>req c. (exAnswer req, c)),
      SearchWithPaging = (\<lambda>req n c. (exAnswer req, c)),
      Close = (\<lambda>c. c)\<rparr>"

definition exLogin :: BasicLogin where
  "exLogin = \<lparr>Username = ''alice'', Password = ''pw''\<rparr>"

definition exBrokenPagingClient :: "unit Client" where
  \<comment> \<open>A connection whose paged search hands back the entries read so far together with an
      error that is not a \<open>*ldapv3.Error\<close>.\<close>
  "exBrokenPagingClient =
     \<lparr>Bind = (\<lambda>dn pw c. (None, c)),
      Search = (\<lambda>req c. (exAnswer req, c)),
      SearchWithPaging = (\<lambda>req n c.
         ((Some \<lparr>Entries = [exEng]\<rparr>, Some (Errorf ''failed to decode child control'')), c)),
      Close = (\<lambda>c. c)\<rparr>"

definition exAmbiguousClient :: "unit Client" where
  \<comment> \<open>A connection whose search finds two entries for the user.\<close>
  "exAmbiguousClient =
     \<lparr>Bind = (\<lambda>dn pw c. (None, c)),
      Search = (\<lambda>req c. ((Some \<lparr>Entries = [exAlice, exAlice\<lparr>DN := ''uid=alice,ou=old,dc=x''\<rparr>]\<rparr>, None), c)),
      SearchWithPaging = (\<lambda>req n c. (exAnswer req, c)),
      Close = (\<lambda>c. c)\<rparr>"

definition exEmptyClient :: "unit Client" where
  \<comment> \<open>A connection to an empty directory.\<close>
  "exEmptyClient =
     \<lparr>Bind = (\<lambda>dn pw c. (None, c)),
      Search = (\<lambda>req c. ((Some \<lparr>Entries = []\<rparr>, None), c)),
      SearchWithPaging = (\<lambda>req n c. ((Some \<lparr>Entries = []\<rparr>, None), c)),
      Close = (\<lambda>c. c)\<rparr>"

definition exBadFilterConfig :: LdapConfig where
  \<comment> \<open>The example configuration with a login filter that lacks its closing parenthesis.\<close>
  "exBadFilterConfig = exConfig\<lparr>UserLoginFilter := ''(memberOf=cn=eng''\<rparr>"

definition exInjectionLogin :: BasicLogin where
  \<comment> \<open>A login whose user name tries to close the clause and add a wildcard clause.\<close>
  "exInjectionLogin = \<lparr>Username = ''*)(uid=*'', Password = ''pw''\<rparr>"

definition exRejectingClient :: "unit Client" where
  \<comment> \<open>A connection that refuses every bind with "invalid credentials" (49).\<close>
  "exRejectingClient =
     \<lparr>Bind = (\<lambda>dn pw c. (Some (LdapError 49), c)),
      Search = (\<lambda>req c. (exAnswer req, c)),
      SearchWithPaging = (\<lambda>req n c. (exAnswer req, c)),
      Close = (\<lambda>c. c)\<rparr>"

definition exConnect :: "LdapConfig \<Rightarrow> unit \<Rightarrow> error + unit" where
  \<comment> \<open>Connecting to the example directory succeeds.\<close>
  "exConnect config caPool = Inr ()"

definition exNoParentsClient :: "unit Client" where
  \<comment> \<open>The example directory, except that the search for the parents of \<open>eng\<close> is
      refused (51, busy).\<close>
  "exNoParentsClient =
     \<lparr>Bind = (\<lambda>dn pw c. (None, c)),
      Search = (\<lambda>req c. (exAnswer req, c)),
      SearchWithPaging = (\<lambda>req n c.
         if Filter req = ''(&(member=cn=eng,dc=x)(objectClass=groupOfNames))''
         then ((None, Some (LdapError 51)), c)
         else (exAnswer req, c)),
      Close = (\<lambda>c. c)\<rparr>"

text \<open>The principals of the three entries.\<close>

definition exAlicePrincipal :: Principal where
  "exAlicePrincipal =
     \<lparr>ObjectMeta_Name = ''openldap_user://uid=alice,dc=x'', DisplayName = ''Alice'',
      LoginName = ''alice'', PrincipalType = ''user''\<rparr>"

definition exEngPrincipal :: Principal where
  "exEngPrincipal =
     \<lparr>ObjectMeta_Name = ''openldap_group://cn=eng,dc=x'', DisplayName = ''eng'',
      LoginName = ''eng'', PrincipalType = ''group''\<rparr>"

definition exStaffPrincipal :: Principal where
  "exStaffPrincipal =
     \<lparr>ObjectMeta_Name = ''openldap_group://cn=staff,dc=x'', DisplayName = ''staff'',
      LoginName = ''staff'', PrincipalType = ''group''\<rparr>"

definition exAliceMember :: Entry where
  \<comment> \<open>The entry of \<open>alice\<close> in a directory that lists her groups in \<open>memberOf\<close>.\<close>
  "exAliceMember =
     \<lparr>DN = ''uid=alice,dc=x'',
      Attributes = [\<lparr>Name = ''objectClass'', Values = [''inetOrgPerson'']\<rparr>,
                    \<lparr>Name = ''uid'', Values = [''alice'']\<rparr>,
                    \<lparr>Name = ''cn'', Values = [''Alice'']\<rparr>,
                    \<lparr>Name = ''memberOf'', Values = [''cn=eng,dc=x'']\<rparr>]\<rparr>"

definition exForwardClient :: "unit Client" where
  \<comment> \<open>The example directory, answering also the query for groups by their DN.\<close>
  "exForwardClient =
     \<lparr>Bind = (\<lambda>dn pw c. (None, c)),
      Search = (\<lambda>req c. (exAnswer req, c)),
      SearchWithPaging = (\<lambda>req n c.
         if Filter req = ''(&(objectClass=groupOfNames)(|(entryDN=cn=eng,dc=x)))''
         then ((Some \<lparr>Entries = [exEng]\<rparr>, None), c)
         else (exAnswer req, c)),
      Close = (\<lambda>c. c)\<rparr>"

text \<open>A user with 51 group DNs, the first and the last naming the same group in two spellings.\<close>

fun startsWith :: "string \<Rightarrow> string \<Rightarrow> bool" where
  "startsWith [] s = True"
| "startsWith (p # ps) [] = False"
| "startsWith (p # ps) (c # cs) = (p = c \<and> startsWith ps cs)"

fun containsStr :: "string \<Rightarrow> string \<Rightarrow> bool" where
  "containsStr pat [] = (pat = [])"
| "containsStr pat (c # cs) = (startsWith pat (c # cs) \<or> containsStr pat cs)"

definition exGroupDN :: "string \<Rightarrow> string" where
  "exGroupDN nm = ''cn='' @ nm @ '',dc=x''"

definition exAliasDNs :: "string list" where
  "exAliasDNs =
     ''cn=eng,dc=x''
       # map (\<lambda>a. exGroupDN [a]) ''abcdefghijklmnopqrstuvwxyzABCDEFGHIJKLMNOPQRSTUVW''
       @ [''CN=eng,dc=x'']"

definition exAliasClient :: "unit Client" where
  \<comment> \<open>A directory that holds the group \<open>eng\<close> only and matches its DN in both spellings:
      it answers a paged search whose filter names that DN with the entry of \<open>eng\<close>.\<close>
  "exAliasClient =
     \<lparr>Bind = (\<lambda>dn pw c. (None, c)),
      Search = (\<lambda>req c. (exAnswer req, c)),
      SearchWithPaging = (\<lambda>req n c.
         if containsStr ''(entryDN=cn=eng,dc=x)'' (Filter req)
            \<or> containsStr ''(entryDN=CN=eng,dc=x)'' (Filter req)
         then ((Some \<lparr>Entries = [exEng]\<rparr>, None), c)
         else ((Some \<lparr>Entries = []\<rparr>, None), c)),
      Close = (\<lambda>c. c)\<rparr>"

definition ex120DNs :: "string list" where
  \<comment> \<open>120 group DNs.\<close>
  "ex120DNs = concat (map (\<lambda>a. map (\<lambda>b. exGroupDN [a, b]) ''0123456789'') ''abcdefghijkl'')"

definition exCyclicClient :: "unit Client" where
  \<comment> \<open>A directory with a membership cycle: \<open>staff\<close> is the parent of \<open>eng\<close> and
      \<open>eng\<close> the parent of \<open>staff\<close>.\<close>
  "exCyclicClient =
     \<lparr>Bind = (\<lambda>dn pw c. (None, c)),
      Search = (\<lambda>req c. (exAnswer req, c)),
      SearchWithPaging = (\<lambda>req n c.
         if Filter req = ''(&(member=cn=eng,dc=x)(objectClass=groupOfNames))''
         then ((Some \<lparr>Entries = [exStaff]\<rparr>, None), c)
         else if Filter req = ''(&(member=cn=staff,dc=x)(objectClass=groupOfNames))''
         then ((Some \<lparr>Entries = [exEng]\<rparr>, None), c)
         else ((Some \<lparr>Entries = []\<rparr>, None), c)),
      Close = (\<lambda>c. c)\<rparr>"

section \<open>Properties\<close>

subsection \<open>Sequencing\<close>

lemma obind_simps [simp]:
  "obind (Return x) f = f x" "obind Panic f = Panic" "obind Diverge f = Diverge"
  by (simp_all add: obind_def)

subsection \<open>searchLdap: which search failures reach the caller\<close>

lemma searchLdap_no_such_object:
  assumes "index1 (Split scope (CHR ''_'')) = Some entityType"
    and "Bind lConn (GetUserExternalID d (ServiceAccountDistinguishedName config) [])
           (ServiceAccountPassword config) c = (None, c1)"
    and "SearchWithPaging lConn (searchRequestFor d query entityType config) 1000 c1
           = ((Some \<lparr>Entries = []\<rparr>, Some (LdapError LDAPResultNoSuchObject)), c2)"
  shows "searchLdap d p lConn query scope config c = Return (([], None), c2)"
  using assms by (simp add: searchLdap_def searchErrorSurfaced_def)

lemma searchLdap_ldap_error:
  assumes "index1 (Split scope (CHR ''_'')) = Some entityType"
    and "Bind lConn (GetUserExternalID d (ServiceAccountDistinguishedName config) [])
           (ServiceAccountPassword config) c = (None, c1)"
    and "SearchWithPaging lConn (searchRequestFor d query entityType config) 1000 c1
           = ((rs, Some (LdapError code)), c2)"
    and "code \<noteq> LDAPResultNoSuchObject"
  shows "searchLdap d p lConn query scope config c
           = Return (([], Some (Wrapf (''ldap: error searching for query '' @ query @ '':, error: '')
                                  (LdapError code))), c2)"
  using assms by (simp add: searchLdap_def searchErrorSurfaced_def)

text \<open>
  C4.  A search failure whose result code is "no such object" gives no principals and no
  error, and every other search failure is returned as an error.  The second half fails for
  an error that is not a \<open>*ldapv3.Error\<close>: on the connection \<open>exBrokenPagingClient\<close>,
  whose paged search returns the entry of \<open>eng\<close> with such an error, \<open>searchLdap\<close>
  returns the principal of \<open>eng\<close> and a nil error.
\<close>

theorem searchLdap_ignores_untyped_search_error:
  "searchLdap exDeps exProvider exBrokenPagingClient ''(objectClass=groupOfNames)''
     ''openldap_group'' exConfig ()
   = Return (([\<lparr>ObjectMeta_Name = ''openldap_group://cn=eng,dc=x'', DisplayName = ''eng'',
                 LoginName = ''eng'', PrincipalType = ''group''\<rparr>], None), ())"
  by (simp add: searchLdap_def searchErrorSurfaced_def index1_def exBrokenPagingClient_def
      exDeps_def exConfig_def exProvider_def exEng_def externalIDOf_def
      exAttributesToPrincipal_def exIsType_def exAttrValues_def exFirstOr_def)

subsection \<open>loginUser: the user search must find exactly one entry\<close>

lemma ex_login_filter:
  "Filter (loginSearchRequest exDeps exLogin exConfig) = ''(&(objectClass=inetOrgPerson)(uid=alice))''"
  by (simp add: loginSearchRequest_def NewWholeSubtreeSearchRequest_def loginFilter_def
      ObjectClass_def exDeps_def exConfig_def exLogin_def goEscapeFilter_def escapeByte_def
      mustEscape_def)

lemma ex_login_auth:
  "AuthenticateServiceAccountUser exDeps (ServiceAccountPassword exConfig)
     (ServiceAccountDistinguishedName exConfig) [] exAmbiguousClient () = (None, ())"
  "AuthenticateServiceAccountUser exDeps (ServiceAccountPassword exConfig)
     (ServiceAccountDistinguishedName exConfig) [] exEmptyClient () = (None, ())"
  by (simp_all add: AuthenticateServiceAccountUser_def exAmbiguousClient_def exEmptyClient_def)

lemma ex_login_search:
  "Search exAmbiguousClient (loginSearchRequest exDeps exLogin exConfig) ()
     = ((Some \<lparr>Entries = [exAlice, exAlice\<lparr>DN := ''uid=alice,ou=old,dc=x''\<rparr>]\<rparr>, None), ())"
  "Search exEmptyClient (loginSearchRequest exDeps exLogin exConfig) ()
     = ((Some \<lparr>Entries = []\<rparr>, None), ())"
  by (simp_all add: exAmbiguousClient_def exEmptyClient_def)

lemma ex_login_inputs:
  "Password exLogin \<noteq> []" "UserLoginFilter exConfig = []"
  by (simp_all add: exLogin_def exConfig_def)

text \<open>
  C6 as stated fails.  A login whose user search finds no entry and a login whose user search
  finds two entries return different errors: both are \<open>Unauthorized\<close> with the message
  "Unauthorized", but the wrapped cause of the first names the search filter and the cause
  of the second says that more than one result was found.  A caller that reads the cause
  tells the two cases apart.
\<close>

theorem loginUser_zero_and_many_differ:
  "loginUser exDeps exProvider (GatherParentGroups exDeps) exEmptyClient exLogin exConfig ()
     = Return ((emptyPrincipal, [], Some (APIError Unauthorized ''Unauthorized''
                 (Some (Errorf ''cannot locate user information for (&(objectClass=inetOrgPerson)(uid=alice))'')))), ())
   \<and> loginUser exDeps exProvider (GatherParentGroups exDeps) exAmbiguousClient exLogin exConfig ()
     = Return ((emptyPrincipal, [], Some (APIError Unauthorized ''Unauthorized''
                 (Some (Errorf ''ldap user search found more than one result'')))), ())
   \<and> loginUser exDeps exProvider (GatherParentGroups exDeps) exEmptyClient exLogin exConfig ()
     \<noteq> loginUser exDeps exProvider (GatherParentGroups exDeps) exAmbiguousClient exLogin exConfig ()"
  by (simp add: loginUser_def loginOnSearchResult_def loginFail_def WrapAPIError_def
      ex_login_inputs ex_login_auth ex_login_search ex_login_filter)

text \<open>
  C6 (amended).  When the user search of \<open>loginUser\<close> succeeds with zero entries, or with
  more than one, \<open>loginUser\<close> fails with the API error \<open>Unauthorized\<close> and the message
  "Unauthorized" in both cases (never \<open>ServerError\<close>); the wrapped cause is "cannot
  locate user information for" followed by the search filter in the first case, and "ldap
  user search found more than one result" in the second.
\<close>

theorem loginUser_not_one_entry_unauthorized:
  assumes "Password credentials \<noteq> []"
    and "AuthenticateServiceAccountUser d (ServiceAccountPassword config)
           (ServiceAccountDistinguishedName config) [] lConn c = (None, c1)"
    and "UserLoginFilter config = [] \<or> CompileFilter d (UserLoginFilter config) = None"
    and "Search lConn (loginSearchRequest d credentials config) c1 = ((Some result, None), c2)"
    and "length (Entries result) \<noteq> 1"
  shows "loginUser d p gather lConn credentials config c
           = Return ((emptyPrincipal, [],
                      Some (APIError Unauthorized ''Unauthorized''
                              (Some (Errorf
                                 (if Entries result = []
                                  then ''cannot locate user information for ''
                                         @ Filter (loginSearchRequest d credentials config)
                                  else ''ldap user search found more than one result''))))),
                     c2)"
proof (cases "Entries result")
  case Nil
  then show ?thesis
    using assms
    by (auto simp add: loginUser_def loginOnSearchResult_def loginFail_def WrapAPIError_def)
next
  case (Cons e es)
  then obtain e' es' where "es = e' # es'" using assms(5) by (cases es) auto
  with Cons show ?thesis
    using assms
    by (auto simp add: loginUser_def loginOnSearchResult_def loginFail_def WrapAPIError_def)
qed

theorem loginUser_not_one_entry_unauthorized_witness:
  "Password exLogin \<noteq> []
   \<and> length (Entries \<lparr>Entries = [exAlice, exAlice\<lparr>DN := ''uid=alice,ou=old,dc=x''\<rparr>]\<rparr>) \<noteq> 1
   \<and> loginUser exDeps exProvider (GatherParentGroups exDeps) exAmbiguousClient exLogin exConfig ()
     = Return ((emptyPrincipal, [], Some (APIError Unauthorized ''Unauthorized''
                 (Some (Errorf ''ldap user search found more than one result'')))), ())
   \<and> length (Entries \<lparr>Entries = []\<rparr>) \<noteq> 1
   \<and> loginUser exDeps exProvider (GatherParentGroups exDeps) exEmptyClient exLogin exConfig ()
     = Return ((emptyPrincipal, [], Some (APIError Unauthorized ''Unauthorized''
                 (Some (Errorf (''cannot locate user information for ''
                                  @ ''(&(objectClass=inetOrgPerson)(uid=alice))''))))), ())"
proof -
  have c: "UserLoginFilter exConfig = [] \<or> CompileFilter exDeps (UserLoginFilter exConfig) = None"
    using ex_login_inputs(2) by simp
  have e: "length (Entries \<lparr>Entries = [exAlice, exAlice\<lparr>DN := ''uid=alice,ou=old,dc=x''\<rparr>]\<rparr>) \<noteq> 1"
    by simp
  have e': "length (Entries \<lparr>Entries = []\<rparr>) \<noteq> 1" by simp
  note many = loginUser_not_one_entry_unauthorized
      [OF ex_login_inputs(1) ex_login_auth(1) c ex_login_search(1) e,
       of exProvider "GatherParentGroups exDeps"]
  note zero = loginUser_not_one_entry_unauthorized
      [OF ex_login_inputs(1) ex_login_auth(2) c ex_login_search(2) e',
       of exProvider "GatherParentGroups exDeps"]
  show ?thesis using many zero ex_login_inputs(1) by (simp add: ex_login_filter)
qed

subsection \<open>loginUser: a malformed login filter\<close>

lemma recording_Bind:
  "Bind (recording lConn) dn pw (c, tr)
     = (fst (Bind lConn dn pw c), (snd (Bind lConn dn pw c), tr @ [BindCall dn pw]))"
  by (simp add: recording_def split: prod.split)

text \<open>
  C7.  When the configured user login filter is not empty and does not compile, \<open>loginUser\<close>
  returns an error and issues no search on the connection; once the password is not empty
  and the service account is bound, the error is \<open>InvalidOption\<close> and the bind of the
  service account is the only operation issued.
\<close>

theorem loginUser_invalid_login_filter:
  assumes "UserLoginFilter config \<noteq> []"
    and "CompileFilter d (UserLoginFilter config) = Some e"
  shows "(\<exists>err c' tr. loginUser d p gather (recording lConn) credentials config (c, [])
                          = Return ((emptyPrincipal, [], Some err), (c', tr))
                      \<and> (\<forall>k \<in> set tr. \<not> isSearchCall k))
       \<and> (Password credentials \<noteq> []
            \<and> Bind lConn (GetUserExternalID d (ServiceAccountDistinguishedName config) [])
                  (ServiceAccountPassword config) c = (None, c1)
          \<longrightarrow> loginUser d p gather (recording lConn) credentials config (c, [])
                = Return ((emptyPrincipal, [],
                           Some (APIError InvalidOption ''invalid userLoginFilter'' (Some e))),
                          (c1, [BindCall (GetUserExternalID d (ServiceAccountDistinguishedName config) [])
                                  (ServiceAccountPassword config)])))"
  using assms
  by (cases "Bind lConn (GetUserExternalID d (ServiceAccountDistinguishedName config) [])
                  (ServiceAccountPassword config) c"; cases "fst (Bind lConn (GetUserExternalID d (ServiceAccountDistinguishedName config) [])
                  (ServiceAccountPassword config) c)")
     (auto simp add: loginUser_def loginFail_def WrapAPIError_def NewAPIError_def
        AuthenticateServiceAccountUser_def recording_Bind isSearchCall_def)

theorem loginUser_invalid_login_filter_witness:
  "UserLoginFilter exBadFilterConfig \<noteq> []
   \<and> CompileFilter exDeps (UserLoginFilter exBadFilterConfig) = Some (LdapError 201)
   \<and> loginUser exDeps exProvider (GatherParentGroups exDeps) (recording exClient) exLogin
        exBadFilterConfig ((), [])
      = Return ((emptyPrincipal, [],
                 Some (APIError InvalidOption ''invalid userLoginFilter'' (Some (LdapError 201)))),
                ((), [BindCall ''cn=svc,dc=x'' ''secret'']))"
proof -
  have a: "UserLoginFilter exBadFilterConfig \<noteq> []"
    by (simp add: exBadFilterConfig_def)
  have b: "CompileFilter exDeps (UserLoginFilter exBadFilterConfig) = Some (LdapError 201)"
    by (simp add: exBadFilterConfig_def exDeps_def exCompileFilter_def)
  have c: "Password exLogin \<noteq> []" by (simp add: exLogin_def)
  have d: "Bind exClient (GetUserExternalID exDeps (ServiceAccountDistinguishedName exBadFilterConfig) [])
             (ServiceAccountPassword exBadFilterConfig) () = (None, ())"
    by (simp add: exClient_def)
  have e: "GetUserExternalID exDeps (ServiceAccountDistinguishedName exBadFilterConfig) [] = ''cn=svc,dc=x''"
    by (simp add: exDeps_def exBadFilterConfig_def exConfig_def)
  have f: "ServiceAccountPassword exBadFilterConfig = ''secret''"
    by (simp add: exBadFilterConfig_def exConfig_def)
  from loginUser_invalid_login_filter [OF a b, of exProvider "GatherParentGroups exDeps" exClient exLogin "()" "()"]
    c d e f a b
  show ?thesis by simp
qed

subsection \<open>loginUser: the user name in the login filter\<close>

lemma hexValue_hexDigit:
  assumes "k < 16"
  shows "hexValue (hexDigit k) = Some k"
proof -
  have "k = 0 \<or> k = 1 \<or> k = 2 \<or> k = 3 \<or> k = 4 \<or> k = 5 \<or> k = 6 \<or> k = 7 \<or> k = 8
          \<or> k = 9 \<or> k = 10 \<or> k = 11 \<or> k = 12 \<or> k = 13 \<or> k = 14 \<or> k = 15"
    using assms by arith
  then show ?thesis
    by (auto simp add: hexDigit_def hexValue_def)
qed

lemma hexDigit_not_meta:
  assumes "k < 16"
  shows "hexDigit k \<notin> {CHR ''*'', CHR ''('', CHR '')'', CHR 0x00}"
proof -
  have "k = 0 \<or> k = 1 \<or> k = 2 \<or> k = 3 \<or> k = 4 \<or> k = 5 \<or> k = 6 \<or> k = 7 \<or> k = 8
          \<or> k = 9 \<or> k = 10 \<or> k = 11 \<or> k = 12 \<or> k = 13 \<or> k = 14 \<or> k = 15"
    using assms by arith
  then show ?thesis
    by (auto simp add: hexDigit_def)
qed

lemma of_char_bound: "(of_char (c::char) :: nat) < 256"
  by (rule order_less_le_trans [OF _ order_refl], simp)

lemma escapeByte_no_meta:
  "set (escapeByte c) \<inter> {CHR ''*'', CHR ''('', CHR '')'', CHR 0x00} = {}"
proof (cases "mustEscape c")
  case True
  have d: "(of_char c :: nat) div 16 < 16" using of_char_bound [of c] by arith
  have m: "(of_char c :: nat) mod 16 < 16" by simp
  show ?thesis
    using True hexDigit_not_meta [OF d] hexDigit_not_meta [OF m]
    by (simp add: escapeByte_def)
next
  case False
  then show ?thesis by (auto simp add: escapeByte_def mustEscape_def)
qed

lemma goEscapeFilter_no_meta:
  "set (goEscapeFilter s) \<inter> {CHR ''*'', CHR ''('', CHR '')'', CHR 0x00} = {}"
  using escapeByte_no_meta by (induction s) (auto simp add: goEscapeFilter_def)

lemma unescape_escapeByte:
  "unescapeFilter (escapeByte c @ rest) = map_option ((#) c) (unescapeFilter rest)"
proof (cases "mustEscape c")
  case True
  have d: "(of_char c :: nat) div 16 < 16" using of_char_bound [of c] by arith
  have m: "(of_char c :: nat) mod 16 < 16" by simp
  have "char_of (16 * ((of_char c :: nat) div 16) + (of_char c :: nat) mod 16) = c"
    by simp
  then show ?thesis
    using True hexValue_hexDigit [OF d] hexValue_hexDigit [OF m]
    by (simp add: escapeByte_def)
next
  case False
  then show ?thesis by (simp add: escapeByte_def mustEscape_def)
qed

lemma unescape_goEscapeFilter: "unescapeFilter (goEscapeFilter s) = Some s"
proof (induction s)
  case Nil
  then show ?case by (simp add: goEscapeFilter_def)
next
  case (Cons c s)
  have "goEscapeFilter (c # s) = escapeByte c @ goEscapeFilter s"
    by (simp add: goEscapeFilter_def)
  then show ?case using Cons by (simp add: unescape_escapeByte)
qed

lemma recording_Search:
  "Search (recording lConn) req (c, tr)
     = (fst (Search lConn req c), (snd (Search lConn req c), tr @ [SearchCall req]))"
  by (simp add: recording_def split: prod.split)

lemma loginUser_issues_search:
  assumes "Password credentials \<noteq> []"
    and "Bind lConn (GetUserExternalID d (ServiceAccountDistinguishedName config) [])
           (ServiceAccountPassword config) c = (None, c1)"
    and "UserLoginFilter config = [] \<or> CompileFilter d (UserLoginFilter config) = None"
    and "Search lConn (loginSearchRequest d credentials config) c1 = (res, c2)"
  shows "loginUser d p gather (recording lConn) credentials config (c, [])
           = loginOnSearchResult d p gather (recording lConn) credentials config
               (loginSearchRequest d credentials config)
               (res, (c2, [BindCall (GetUserExternalID d (ServiceAccountDistinguishedName config) [])
                             (ServiceAccountPassword config),
                           SearchCall (loginSearchRequest d credentials config)]))"
  using assms
  by (auto simp add: loginUser_def AuthenticateServiceAccountUser_def recording_Bind
      recording_Search)

text \<open>
  C9.  Once the password is not empty, the service account is bound and the login filter is
  accepted, \<open>loginUser\<close> issues, right after the bind, the search with the request
  \<open>loginSearchRequest\<close> and goes on from what that search returns.  The filter of that
  request holds the user name only as \<open>EscapeFilter\<close> returns it.  With the escaping of
  the go-ldap library, that segment has no \<open>*\<close>, \<open>(\<close>, \<open>)\<close> or NUL byte, and read
  back as an escaped value (a backslash and two hexadecimal digits for one byte) it is the
  user name itself: the metacharacters of the user name, the backslash included, occur as
  escaped literals only.
\<close>

theorem loginUser_filter_escapes_username:
  assumes "EscapeFilter d = goEscapeFilter"
    and "Password credentials \<noteq> []"
    and "Bind lConn (GetUserExternalID d (ServiceAccountDistinguishedName config) [])
           (ServiceAccountPassword config) c = (None, c1)"
    and "UserLoginFilter config = [] \<or> CompileFilter d (UserLoginFilter config) = None"
    and "Search lConn (loginSearchRequest d credentials config) c1 = (res, c2)"
  shows "loginUser d p gather (recording lConn) credentials config (c, [])
           = loginOnSearchResult d p gather (recording lConn) credentials config
               (loginSearchRequest d credentials config)
               (res, (c2, [BindCall (GetUserExternalID d (ServiceAccountDistinguishedName config) [])
                             (ServiceAccountPassword config),
                           SearchCall (loginSearchRequest d credentials config)]))
         \<and> Filter (loginSearchRequest d credentials config)
           = ''(&(objectClass='' @ SanitizeAttr d (UserObjectClass config) @ '')(''
               @ SanitizeAttr d (UserLoginAttribute config) @ ''=''
               @ goEscapeFilter (Username credentials)
               @ '')'' @ UserLoginFilter config @ '')''
         \<and> set (goEscapeFilter (Username credentials))
             \<inter> {CHR ''*'', CHR ''('', CHR '')'', CHR 0x00} = {}
         \<and> unescapeFilter (goEscapeFilter (Username credentials)) = Some (Username credentials)"
  using assms(1) goEscapeFilter_no_meta [of "Username credentials"]
    loginUser_issues_search [OF assms(2-5)]
  by (simp add: loginSearchRequest_def NewWholeSubtreeSearchRequest_def loginFilter_def
      ObjectClass_def unescape_goEscapeFilter)

theorem loginUser_filter_escapes_username_witness:
  "EscapeFilter exDeps = goEscapeFilter
   \<and> Password exInjectionLogin \<noteq> []
   \<and> loginUser exDeps exProvider (GatherParentGroups exDeps) (recording exEmptyClient)
        exInjectionLogin exConfig ((), [])
      = Return ((emptyPrincipal, [],
                 Some (APIError Unauthorized ''Unauthorized''
                   (Some (Errorf (''cannot locate user information for ''
                      @ ''(&(objectClass=inetOrgPerson)(uid='' @ [CHR 0x5C] @ ''2a'' @ [CHR 0x5C]
                      @ ''29'' @ [CHR 0x5C] @ ''28uid='' @ [CHR 0x5C] @ ''2a))''))))),
                ((), [BindCall ''cn=svc,dc=x'' ''secret'',
                      SearchCall \<lparr>BaseDN = ''dc=x'', Scope = ScopeWholeSubtree,
                        Filter = ''(&(objectClass=inetOrgPerson)(uid='' @ [CHR 0x5C] @ ''2a''
                                   @ [CHR 0x5C] @ ''29'' @ [CHR 0x5C] @ ''28uid='' @ [CHR 0x5C]
                                   @ ''2a))'',
                        ReqAttributes = [''objectClass'', ''uid'', ''cn'', ''memberOf'']\<rparr>]))
   \<and> unescapeFilter (goEscapeFilter ''*)(uid=*'') = Some ''*)(uid=*''"
proof -
  have a: "EscapeFilter exDeps = goEscapeFilter" by (simp add: exDeps_def)
  have b: "goEscapeFilter ''*)(uid=*''
             = [CHR 0x5C] @ ''2a'' @ [CHR 0x5C] @ ''29'' @ [CHR 0x5C] @ ''28uid='' @ [CHR 0x5C] @ ''2a''"
    by (simp add: goEscapeFilter_def escapeByte_def mustEscape_def hexDigit_def)
  have pw: "Password exInjectionLogin \<noteq> []" by (simp add: exInjectionLogin_def)
  have f: "Username exInjectionLogin = ''*)(uid=*''" by (simp add: exInjectionLogin_def)
  have bd: "Bind exEmptyClient
              (GetUserExternalID exDeps (ServiceAccountDistinguishedName exConfig) [])
              (ServiceAccountPassword exConfig) () = (None, ())"
    by (simp add: exEmptyClient_def)
  have lf: "UserLoginFilter exConfig = [] \<or> CompileFilter exDeps (UserLoginFilter exConfig) = None"
    by (simp add: exConfig_def)
  have sr: "Search exEmptyClient (loginSearchRequest exDeps exInjectionLogin exConfig) ()
              = ((Some \<lparr>Entries = []\<rparr>, None), ())"
    by (simp add: exEmptyClient_def)
  have req: "loginSearchRequest exDeps exInjectionLogin exConfig
               = \<lparr>BaseDN = ''dc=x'', Scope = ScopeWholeSubtree,
                  Filter = ''(&(objectClass=inetOrgPerson)(uid='' @ [CHR 0x5C] @ ''2a''
                             @ [CHR 0x5C] @ ''29'' @ [CHR 0x5C] @ ''28uid='' @ [CHR 0x5C]
                             @ ''2a))'',
                  ReqAttributes = [''objectClass'', ''uid'', ''cn'', ''memberOf'']\<rparr>"
    using b by (simp add: loginSearchRequest_def NewWholeSubtreeSearchRequest_def loginFilter_def
        ObjectClass_def exDeps_def exConfig_def f)
  have sa: "GetUserExternalID exDeps (ServiceAccountDistinguishedName exConfig) [] = ''cn=svc,dc=x''"
    "ServiceAccountPassword exConfig = ''secret''"
    by (simp_all add: exDeps_def exConfig_def)
  note t = loginUser_filter_escapes_username [OF a pw bd lf sr,
      of exProvider "GatherParentGroups exDeps"]
  show ?thesis
    using t a pw unfolding req sa f
    by (simp add: loginOnSearchResult_def loginFail_def WrapAPIError_def)
qed

subsection \<open>getPrincipal: the service account is refused\<close>

lemma recording_Close: "Close (recording lConn) (c, tr) = (Close lConn c, tr @ [CloseCall])"
  by (simp add: recording_def)

text \<open>
  C10.  In \<open>getPrincipal\<close>, when the bind of the service account fails with the result
  code "invalid credentials" and the configuration is enabled, the function returns, with
  a nil error, a principal made from the distinguished name alone: its id is
  \<open>scope://DN\<close>, its display name and its login name are the DN.  The bind and the
  deferred close are the only operations issued on the connection: no search.
\<close>

theorem getPrincipal_invalid_credentials_bind:
  assumes "scope = userScope p \<or> scope = groupScope p"
    and "ParseDN d distinguishedName = Inr rdns"
    and "IsType d (dnAttributes rdns) scope \<or> permissionCheck d (dnAttributes rdns) config"
    and "index1 (Split scope (CHR ''_'')) = Some entityType"
    and "connect config caPool = Inr c"
    and "Bind lConn (GetUserExternalID d (ServiceAccountDistinguishedName config) [])
           (ServiceAccountPassword config) c = (Some err, c1)"
    and "IsErrorWithCode d err LDAPResultInvalidCredentials"
    and "Enabled config"
  shows "getPrincipal d p (recordingConnect connect) (recording lConn) distinguishedName scope
           config caPool
         = Return ((Some \<lparr>ObjectMeta_Name = scope @ ''://'' @ distinguishedName,
                           DisplayName = distinguishedName,
                           LoginName = distinguishedName,
                           PrincipalType = kindOf d entityType\<rparr>, None),
                   Some (Close lConn c1,
                         [BindCall (GetUserExternalID d (ServiceAccountDistinguishedName config) [])
                            (ServiceAccountPassword config), CloseCall]))"
  using assms
  by (auto simp add: getPrincipal_def recordingConnect_def recording_Bind recording_Close
      closing_def principalFromDN_def)

theorem getPrincipal_invalid_credentials_bind_witness:
  "IsErrorWithCode exDeps (LdapError 49) LDAPResultInvalidCredentials \<and> Enabled exConfig
   \<and> getPrincipal exDeps exProvider (recordingConnect exConnect) (recording exRejectingClient)
        ''cn=eng,dc=x'' ''openldap_group'' exConfig ()
      = Return ((Some \<lparr>ObjectMeta_Name = ''openldap_group://cn=eng,dc=x'',
                        DisplayName = ''cn=eng,dc=x'', LoginName = ''cn=eng,dc=x'',
                        PrincipalType = ''group''\<rparr>, None),
                Some ((), [BindCall ''cn=svc,dc=x'' ''secret'', CloseCall]))"
proof -
  have a: "''openldap_group'' = userScope exProvider \<or> ''openldap_group'' = groupScope exProvider"
    by (simp add: exProvider_def)
  have b: "ParseDN exDeps ''cn=eng,dc=x'' = Inr [[(''dn'', ''cn=eng,dc=x'')]]"
    by (simp add: exDeps_def)
  have c: "IsType exDeps (dnAttributes [[(''dn'', ''cn=eng,dc=x'')]]) ''openldap_group''
           \<or> permissionCheck exDeps (dnAttributes [[(''dn'', ''cn=eng,dc=x'')]]) exConfig"
    by (simp add: permissionCheck_def exDeps_def)
  have d: "index1 (Split ''openldap_group'' (CHR ''_'')) = Some ''group''"
    by (simp add: index1_def)
  have e: "exConnect exConfig () = Inr ()" by (simp add: exConnect_def)
  have f: "Bind exRejectingClient
             (GetUserExternalID exDeps (ServiceAccountDistinguishedName exConfig) [])
             (ServiceAccountPassword exConfig) () = (Some (LdapError 49), ())"
    by (simp add: exRejectingClient_def)
  have g: "IsErrorWithCode exDeps (LdapError 49) LDAPResultInvalidCredentials"
    by (simp add: exDeps_def LDAPResultInvalidCredentials_def)
  have h: "Enabled exConfig" by (simp add: exConfig_def)
  have i: "GetUserExternalID exDeps (ServiceAccountDistinguishedName exConfig) [] = ''cn=svc,dc=x''"
    by (simp add: exDeps_def exConfig_def)
  have j: "ServiceAccountPassword exConfig = ''secret''" by (simp add: exConfig_def)
  have k: "kindOf exDeps ''group'' = ''group''" by (simp add: kindOf_def exDeps_def)
  have l: "Close exRejectingClient () = ()" by simp
  from getPrincipal_invalid_credentials_bind
         [where connect = exConnect and caPool = "()" and config = exConfig, OF a b c d e f g h] g h
  show ?thesis unfolding i j k l by simp
qed

subsection \<open>searchUser and searchGroup: the queries\<close>

lemma foldl_append_concat:
  "foldl (\<lambda>acc x. acc @ f x) a xs = a @ concat (map f xs)"
  by (induction xs arbitrary: a) simp_all

lemma Sprintf_literal:
  assumes "CHR ''%'' \<notin> set a"
  shows "Sprintf (a @ fs) as = map_option ((@) a) (Sprintf fs as)"
  using assms
proof (induction a)
  case Nil
  show ?case by (simp add: option.map_ident)
next
  case (Cons x a)
  then show ?case by (auto simp add: option.map_comp comp_def)
qed

lemma Sprintf_contains:
  assumes "CHR ''%'' \<notin> set a"
  shows "Sprintf (a @ ''=*%s*'') [x] = Some (a @ ''=*'' @ x @ ''*'')"
  using Sprintf_literal [OF assms, of "''=*%s*''" "[x]"] by simp

lemma Sprintf_exact:
  assumes "CHR ''%'' \<notin> set a"
  shows "Sprintf (a @ ''=%s'') [x] = Some (a @ ''='' @ x)"
  using Sprintf_literal [OF assms, of "''=%s''" "[x]"] by simp

lemma searchUserQuery_eq:
  "searchUserQuery d name config
     = ''(&(objectClass='' @ SanitizeAttr d (UserObjectClass config) @ '')(|''
         @ concat (map (\<lambda>attr. ''('' @ EscapeFilter d attr @ ''='' @ EscapeFilter d name
                                  @ (if attr = ''uidNumber'' then [] else ''*'') @ '')'')
                     (Split (UserSearchAttribute config) (CHR ''|'')))
         @ '')'' @ UserSearchFilter config @ '')''"
proof -
  have u: "userSearchClause d name = (\<lambda>attr. ''('' @ EscapeFilter d attr @ ''='' @ EscapeFilter d name
                                        @ (if attr = ''uidNumber'' then [] else ''*'') @ '')'')"
    by (rule ext) (simp add: userSearchClause_def)
  show ?thesis
    by (simp add: searchUserQuery_def Let_def foldl_append_concat ObjectClass_def u)
qed

lemma searchGroupQuery_eq:
  assumes "CHR ''%'' \<notin> set (SanitizeAttr d (GroupSearchAttribute config))"
  shows "searchGroupQuery d name config
           = Some (''(&(objectClass='' @ SanitizeAttr d (GroupObjectClass config) @ '')(''
                     @ SanitizeAttr d (GroupSearchAttribute config)
                     @ (if GroupSearchAttribute config = ''gidNumber''
                        then ''='' @ EscapeFilter d name
                        else ''=*'' @ EscapeFilter d name @ ''*'')
                     @ '')'' @ GroupSearchFilter config @ '')'')"
proof -
  define s where "s = SanitizeAttr d (GroupSearchAttribute config)"
  have pc: "CHR ''%'' \<notin> set s" using assms by (simp add: s_def)
  have 2: "searchGroupQuery d name config
           = Some (''(&(objectClass='' @ SanitizeAttr d (GroupObjectClass config) @ '')(''
                     @ s
                     @ (if GroupSearchAttribute config = ''gidNumber''
                        then ''='' @ EscapeFilter d name
                        else ''=*'' @ EscapeFilter d name @ ''*'')
                     @ '')'' @ GroupSearchFilter config @ '')'')"
    unfolding searchGroupQuery_def Let_def s_def [symmetric]
    using Sprintf_contains [OF pc] Sprintf_exact [OF pc] by (simp add: ObjectClass_def)
  show ?thesis using 2 by (simp add: s_def)
qed

lemma recording_SearchWithPaging:
  "SearchWithPaging (recording lConn) req n (c, tr)
     = (fst (SearchWithPaging lConn req n c),
        (snd (SearchWithPaging lConn req n c), tr @ [SearchWithPagingCall req n]))"
  by (simp add: recording_def split: prod.split)

lemma Filter_searchRequestFor: "Filter (searchRequestFor d query entityType config) = query"
  by (simp add: searchRequestFor_def NewWholeSubtreeSearchRequest_def)

lemma searchLdap_recording_trace:
  assumes "Bind lConn (GetUserExternalID d (ServiceAccountDistinguishedName config) [])
             (ServiceAccountPassword config) c = (None, c1)"
    and "searchLdap d p (recording lConn) query scope config (c, []) = Return (r, (c', tr))"
  shows "\<exists>req. tr = [BindCall (GetUserExternalID d (ServiceAccountDistinguishedName config) [])
                       (ServiceAccountPassword config),
                     SearchWithPagingCall req 1000]
               \<and> Filter req = query"
proof -
  from assms(2) obtain et where et: "index1 (Split scope (CHR ''_'')) = Some et"
    by (auto simp add: searchLdap_def split: option.splits)
  have "tr = [BindCall (GetUserExternalID d (ServiceAccountDistinguishedName config) [])
                (ServiceAccountPassword config),
              SearchWithPagingCall (searchRequestFor d query et config) 1000]"
    using assms et
    by (auto simp add: searchLdap_def recording_Bind recording_SearchWithPaging
        split: if_splits option.splits outcome.splits prod.splits)
  then show ?thesis using Filter_searchRequestFor by blast
qed

lemma ex_group_run:
  "searchGroup exDeps exProvider (recording exClient) ''dev'' exConfig ((), [])
     = Some (Return (([], None),
               ((), [BindCall ''cn=svc,dc=x'' ''secret'',
                     SearchWithPagingCall
                       \<lparr>BaseDN = ''dc=x'', Scope = ScopeWholeSubtree,
                        Filter = ''(&(objectClass=groupOfNames)(cn=*dev*))'',
                        ReqAttributes = [''objectClass'', ''cn'', ''member'']\<rparr> 1000])))"
proof -
  have q: "searchGroupQuery exDeps ''dev'' exConfig = Some ''(&(objectClass=groupOfNames)(cn=*dev*))''"
    by (simp add: searchGroupQuery_def exDeps_def exConfig_def ObjectClass_def
        goEscapeFilter_def escapeByte_def mustEscape_def)
  have f: "GroupSearchFilter exConfig = []" "groupScope exProvider = ''openldap_group''"
    by (simp_all add: exConfig_def exProvider_def)
  show ?thesis
    unfolding searchGroup_def q f
    by (simp add: searchLdap_def index1_def recording_Bind recording_SearchWithPaging
        searchRequestFor_def NewWholeSubtreeSearchRequest_def ObjectClass_def exDeps_def
        exConfig_def exClient_def exAnswer_def searchErrorSurfaced_def)
qed

lemma ex_user_run:
  "searchUser exDeps exProvider (recording exClient) ''dev'' exConfig ((), [])
     = Return (([], None),
               ((), [BindCall ''cn=svc,dc=x'' ''secret'',
                     SearchWithPagingCall
                       \<lparr>BaseDN = ''dc=x'', Scope = ScopeWholeSubtree,
                        Filter = ''(&(objectClass=inetOrgPerson)(|(uid=dev*)(cn=dev*)(uidNumber=dev)))'',
                        ReqAttributes = [''objectClass'', ''uid'', ''cn'', ''memberOf'']\<rparr> 1000]))"
proof -
  have q: "searchUserQuery exDeps ''dev'' exConfig
             = ''(&(objectClass=inetOrgPerson)(|(uid=dev*)(cn=dev*)(uidNumber=dev)))''"
    by (simp add: searchUserQuery_def userSearchClause_def exDeps_def exConfig_def ObjectClass_def
        goEscapeFilter_def escapeByte_def mustEscape_def)
  have f: "UserSearchFilter exConfig = []" "userScope exProvider = ''openldap_user''"
    by (simp_all add: exConfig_def exProvider_def)
  show ?thesis
    unfolding searchUser_def q f
    by (simp add: searchLdap_def index1_def recording_Bind recording_SearchWithPaging
        searchRequestFor_def NewWholeSubtreeSearchRequest_def ObjectClass_def exDeps_def
        exConfig_def exClient_def exAnswer_def searchErrorSurfaced_def)
qed

text \<open>
  C5 as stated fails.  The query that \<open>searchGroup\<close> sends is not the prefix match of the
  user query: for the name \<open>dev\<close> and the search attribute \<open>cn\<close> the paged search it
  issues has the clause \<open>(cn=*dev*)\<close>, a substring match, where the prefix match is
  \<open>(cn=dev*)\<close>.
\<close>

theorem searchGroup_query_is_not_prefix_match:
  "searchGroup exDeps exProvider (recording exClient) ''dev'' exConfig ((), [])
     = Some (Return (([], None),
               ((), [BindCall ''cn=svc,dc=x'' ''secret'',
                     SearchWithPagingCall
                       \<lparr>BaseDN = ''dc=x'', Scope = ScopeWholeSubtree,
                        Filter = ''(&(objectClass=groupOfNames)(cn=*dev*))'',
                        ReqAttributes = [''objectClass'', ''cn'', ''member'']\<rparr> 1000])))
   \<and> prefixGroupQuery exDeps ''dev'' exConfig = ''(&(objectClass=groupOfNames)(cn=dev*))''
   \<and> ''(&(objectClass=groupOfNames)(cn=*dev*))'' \<noteq> prefixGroupQuery exDeps ''dev'' exConfig"
proof -
  have p: "prefixGroupQuery exDeps ''dev'' exConfig = ''(&(objectClass=groupOfNames)(cn=dev*))''"
    by (simp add: prefixGroupQuery_def exDeps_def exConfig_def ObjectClass_def
        goEscapeFilter_def escapeByte_def mustEscape_def)
  show ?thesis using ex_group_run p by simp
qed

text \<open>
  C5 (amended).  With its filter override accepted, \<open>searchUser\<close> is \<open>searchLdap\<close> on the
  query that ORs, for every attribute of the pipe-delimited user search attribute list, the
  prefix match \<open>(attr=name*)\<close> (the exact match \<open>(attr=name)\<close> for \<open>uidNumber\<close>),
  attribute and name escaped; \<open>searchGroup\<close> is \<open>searchLdap\<close> on the query with one clause
  on the sanitized group search attribute, the substring match \<open>(attr=*name*)\<close>, and the
  exact match \<open>(attr=name)\<close> for \<open>gidNumber\<close> (the sanitized attribute holding no
  \<open>%\<close>, as it is part of the format string).  Whenever either returns after the bind of
  the service account, the operations it issued are that bind and one paged search of page
  size 1000 whose filter is that query.
\<close>

theorem search_queries:
  assumes "CHR ''%'' \<notin> set (SanitizeAttr d (GroupSearchAttribute config))"
    and "UserSearchFilter config = [] \<or> CompileFilter d (UserSearchFilter config) = None"
    and "GroupSearchFilter config = [] \<or> CompileFilter d (GroupSearchFilter config) = None"
    and "Bind lConn (GetUserExternalID d (ServiceAccountDistinguishedName config) [])
           (ServiceAccountPassword config) c = (None, c1)"
  shows "searchUser d p (recording lConn) name config (c, [])
           = searchLdap d p (recording lConn)
               (''(&(objectClass='' @ SanitizeAttr d (UserObjectClass config) @ '')(|''
                  @ concat (map (\<lambda>attr. ''('' @ EscapeFilter d attr @ ''='' @ EscapeFilter d name
                                           @ (if attr = ''uidNumber'' then [] else ''*'') @ '')'')
                              (Split (UserSearchAttribute config) (CHR ''|'')))
                  @ '')'' @ UserSearchFilter config @ '')'')
               (userScope p) config (c, [])
         \<and> searchGroup d p (recording lConn) name config (c, [])
           = Some (searchLdap d p (recording lConn)
                     (''(&(objectClass='' @ SanitizeAttr d (GroupObjectClass config) @ '')(''
                        @ SanitizeAttr d (GroupSearchAttribute config)
                        @ (if GroupSearchAttribute config = ''gidNumber''
                           then ''='' @ EscapeFilter d name
                           else ''=*'' @ EscapeFilter d name @ ''*'')
                        @ '')'' @ GroupSearchFilter config @ '')'')
                     (groupScope p) config (c, []))
         \<and> (\<forall>r c' tr. searchUser d p (recording lConn) name config (c, []) = Return (r, (c', tr))
               \<longrightarrow> (\<exists>req. tr = [BindCall (GetUserExternalID d (ServiceAccountDistinguishedName config) [])
                                      (ServiceAccountPassword config),
                                    SearchWithPagingCall req 1000]
                          \<and> Filter req
                            = ''(&(objectClass='' @ SanitizeAttr d (UserObjectClass config) @ '')(|''
                               @ concat (map (\<lambda>attr. ''('' @ EscapeFilter d attr @ ''=''
                                                        @ EscapeFilter d name
                                                        @ (if attr = ''uidNumber'' then [] else ''*'')
                                                        @ '')'')
                                           (Split (UserSearchAttribute config) (CHR ''|'')))
                               @ '')'' @ UserSearchFilter config @ '')''))
         \<and> (\<forall>r c' tr. searchGroup d p (recording lConn) name config (c, [])
                          = Some (Return (r, (c', tr)))
               \<longrightarrow> (\<exists>req. tr = [BindCall (GetUserExternalID d (ServiceAccountDistinguishedName config) [])
                                      (ServiceAccountPassword config),
                                    SearchWithPagingCall req 1000]
                          \<and> Filter req
                            = ''(&(objectClass='' @ SanitizeAttr d (GroupObjectClass config) @ '')(''
                               @ SanitizeAttr d (GroupSearchAttribute config)
                               @ (if GroupSearchAttribute config = ''gidNumber''
                                  then ''='' @ EscapeFilter d name
                                  else ''=*'' @ EscapeFilter d name @ ''*'')
                               @ '')'' @ GroupSearchFilter config @ '')''))"
proof -
  have u: "searchUser d p (recording lConn) name config (c, [])
             = searchLdap d p (recording lConn) (searchUserQuery d name config) (userScope p)
                 config (c, [])"
    using assms(2) by (auto simp add: searchUser_def)
  have g: "searchGroup d p (recording lConn) name config (c, [])
             = Some (searchLdap d p (recording lConn) (the (searchGroupQuery d name config))
                       (groupScope p) config (c, []))"
    using assms(3) searchGroupQuery_eq [OF assms(1), of name] by (auto simp add: searchGroup_def)
  show ?thesis
    unfolding u g
    using searchLdap_recording_trace [OF assms(4)]
    by (simp add: searchUserQuery_eq searchGroupQuery_eq [OF assms(1)])
qed

theorem search_queries_witness:
  "CHR ''%'' \<notin> set (SanitizeAttr exDeps (GroupSearchAttribute exConfig))
   \<and> searchUser exDeps exProvider (recording exClient) ''dev'' exConfig ((), [])
     = Return (([], None),
               ((), [BindCall ''cn=svc,dc=x'' ''secret'',
                     SearchWithPagingCall
                       \<lparr>BaseDN = ''dc=x'', Scope = ScopeWholeSubtree,
                        Filter = ''(&(objectClass=inetOrgPerson)(|(uid=dev*)(cn=dev*)(uidNumber=dev)))'',
                        ReqAttributes = [''objectClass'', ''uid'', ''cn'', ''memberOf'']\<rparr> 1000]))
   \<and> (\<exists>req. Filter req
              = ''(&(objectClass='' @ SanitizeAttr exDeps (GroupObjectClass exConfig) @ '')(''
                  @ SanitizeAttr exDeps (GroupSearchAttribute exConfig)
                  @ (if GroupSearchAttribute exConfig = ''gidNumber''
                     then ''='' @ EscapeFilter exDeps ''dev''
                     else ''=*'' @ EscapeFilter exDeps ''dev'' @ ''*'')
                  @ '')'' @ GroupSearchFilter exConfig @ '')''
            \<and> [BindCall ''cn=svc,dc=x'' ''secret'',
                 SearchWithPagingCall
                   \<lparr>BaseDN = ''dc=x'', Scope = ScopeWholeSubtree,
                    Filter = ''(&(objectClass=groupOfNames)(cn=*dev*))'',
                    ReqAttributes = [''objectClass'', ''cn'', ''member'']\<rparr> 1000]
              = [BindCall (GetUserExternalID exDeps (ServiceAccountDistinguishedName exConfig) [])
                   (ServiceAccountPassword exConfig),
                 SearchWithPagingCall req 1000])"
proof -
  have a: "CHR ''%'' \<notin> set (SanitizeAttr exDeps (GroupSearchAttribute exConfig))"
    by (simp add: exDeps_def exConfig_def)
  have b: "UserSearchFilter exConfig = [] \<or> CompileFilter exDeps (UserSearchFilter exConfig) = None"
    by (simp add: exConfig_def)
  have c: "GroupSearchFilter exConfig = [] \<or> CompileFilter exDeps (GroupSearchFilter exConfig) = None"
    by (simp add: exConfig_def)
  have d: "Bind exClient (GetUserExternalID exDeps (ServiceAccountDistinguishedName exConfig) [])
             (ServiceAccountPassword exConfig) () = (None, ())"
    by (simp add: exClient_def)
  note t = search_queries [OF a b c d, of exProvider "''dev''"]
  from t [THEN conjunct2, THEN conjunct2, THEN conjunct2] ex_group_run
  have g: "\<exists>req. [BindCall ''cn=svc,dc=x'' ''secret'',
                 SearchWithPagingCall
                   \<lparr>BaseDN = ''dc=x'', Scope = ScopeWholeSubtree,
                    Filter = ''(&(objectClass=groupOfNames)(cn=*dev*))'',
                    ReqAttributes = [''objectClass'', ''cn'', ''member'']\<rparr> 1000]
              = [BindCall (GetUserExternalID exDeps (ServiceAccountDistinguishedName exConfig) [])
                   (ServiceAccountPassword exConfig),
                 SearchWithPagingCall req 1000]
            \<and> Filter req
              = ''(&(objectClass='' @ SanitizeAttr exDeps (GroupObjectClass exConfig) @ '')(''
                  @ SanitizeAttr exDeps (GroupSearchAttribute exConfig)
                  @ (if GroupSearchAttribute exConfig = ''gidNumber''
                     then ''='' @ EscapeFilter exDeps ''dev''
                     else ''=*'' @ EscapeFilter exDeps ''dev'' @ ''*'')
                  @ '')'' @ GroupSearchFilter exConfig @ '')''"
    by blast
  show ?thesis using a ex_user_run g by blast
qed

subsection \<open>The example directory evaluated\<close>

lemma ex_values:
  "GetAttributeValues exDeps = (\<lambda>e nm. exAttrValues (Attributes e) nm)"
  "IsType exDeps = exIsType"
  "AttributesToPrincipal exDeps = exAttributesToPrincipal"
  "EscapeFilter exDeps = goEscapeFilter"
  "GetUserExternalID exDeps = (\<lambda>u domain. u)"
  "FindNonDuplicateBetweenGroupPrincipals exDeps = specFindNonDuplicate"
  "HasPermission exDeps = (\<lambda>attrs cls enabledAttr mask. True)"
  "EqualFold exDeps = (\<lambda>a b. a = b)"
  "GetGroupSearchAttributes exDeps = (\<lambda>config extra. extra @ [''cn'', ''member''])"
  "GetUserSearchAttributes exDeps = (\<lambda>config extra. extra @ [''uid'', ''cn'', ''memberOf''])"
  "OpenLdapName exDeps = ''openldap''"
  by (simp_all add: exDeps_def)

lemma ex_sanitize:
  "SanitizeAttr exDeps ''member'' = ''member''"
  "SanitizeAttr exDeps ''groupOfNames'' = ''groupOfNames''"
  "SanitizeAttr exDeps ''inetOrgPerson'' = ''inetOrgPerson''"
  by (simp_all add: exDeps_def)

lemma ex_escape:
  "goEscapeFilter ''uid=alice,dc=x'' = ''uid=alice,dc=x''"
  "goEscapeFilter ''cn=eng,dc=x'' = ''cn=eng,dc=x''"
  "goEscapeFilter ''cn=staff,dc=x'' = ''cn=staff,dc=x''"
  by (simp_all add: goEscapeFilter_def escapeByte_def mustEscape_def)

lemma ex_principals:
  "exAttributesToPrincipal (Attributes exAlice) (DN exAlice) ''openldap_user'' ''openldap''
     ''inetOrgPerson'' ''cn'' ''uid'' ''groupOfNames'' ''cn'' = (Some exAlicePrincipal, None)"
  "exAttributesToPrincipal (Attributes exEng) (DN exEng) ''openldap_group'' ''openldap''
     ''inetOrgPerson'' ''cn'' ''uid'' ''groupOfNames'' ''cn'' = (Some exEngPrincipal, None)"
  "exAttributesToPrincipal (Attributes exStaff) (DN exStaff) ''openldap_group'' ''openldap''
     ''inetOrgPerson'' ''cn'' ''uid'' ''groupOfNames'' ''cn'' = (Some exStaffPrincipal, None)"
  by (simp_all add: exAttributesToPrincipal_def exIsType_def exAttrValues_def exFirstOr_def
      exAlice_def exEng_def exStaff_def exAlicePrincipal_def exEngPrincipal_def exStaffPrincipal_def)

lemma ex_config:
  "ServiceAccountDistinguishedName exConfig = ''cn=svc,dc=x''"
  "ServiceAccountPassword exConfig = ''secret''"
  "UserObjectClass exConfig = ''inetOrgPerson''"
  "UserLoginAttribute exConfig = ''uid''"
  "UserNameAttribute exConfig = ''cn''"
  "UserMemberAttribute exConfig = ''memberOf''"
  "UserSearchBase exConfig = ''dc=x''"
  "GroupObjectClass exConfig = ''groupOfNames''"
  "GroupNameAttribute exConfig = ''cn''"
  "GroupDNAttribute exConfig = ''entryDN''"
  "GroupMemberUserAttribute exConfig = ''entryDN''"
  "GroupMemberMappingAttribute exConfig = ''member''"
  "GroupSearchBase exConfig = []"
  "GroupSearchAttribute exConfig = ''cn''"
  "NestedGroupMembershipEnabled exConfig = False"
  by (simp_all add: exConfig_def)

lemma ex_provider:
  "providerName exProvider = ''openldap''" "userScope exProvider = ''openldap_user''"
  "groupScope exProvider = ''openldap_group''" "samlSearchProvider exProvider = False"
  by (simp_all add: exProvider_def)

lemma ex_fallback_search:
  "searchLdap exDeps exProvider exNoParentsClient (reverseQuery exDeps exConfig ''uid=alice,dc=x'')
     ''openldap_group'' exConfig () = Return (([exEngPrincipal], None), ())"
proof -
  have q: "reverseQuery exDeps exConfig ''uid=alice,dc=x''
             = ''(&(member=uid=alice,dc=x)(objectClass=groupOfNames))''"
    by (simp add: reverseQuery_def ex_values ex_config ex_sanitize ex_escape ObjectClass_def)
  show ?thesis
    unfolding q
    by (simp add: searchLdap_def index1_def ex_values ex_config ex_provider searchRequestFor_def
        NewWholeSubtreeSearchRequest_def exNoParentsClient_def exAnswer_def searchErrorSurfaced_def
        externalIDOf_def ex_principals)
qed

subsection \<open>Group resolution: the path to the nested-group block\<close>

lemma gatherAll_fails_at:
  assumes "gatherAll gather sd gs cc lConn sa done gm0 n0 c = Return ((None, gm, nested), c1)"
    and "gather g sd gs cc lConn gm nested sa c1 = Return ((Some e, gm', nested'), c2)"
  shows "gatherAll gather sd gs cc lConn sa (done @ g # rest) gm0 n0 c
           = Return ((Some e, gm', nested'), c2)"
  using assms
proof (induction "done" arbitrary: gm0 n0 c)
  case Nil
  then show ?case by simp
next
  case (Cons x xs)
  from Cons.prems(1) obtain gmx nx cx where
    x: "gather x sd gs cc lConn gm0 n0 sa c = Return ((None, gmx, nx), cx)"
    and r: "gatherAll gather sd gs cc lConn sa xs gmx nx cx = Return ((None, gm, nested), c1)"
    by (auto simp add: obind_def split: outcome.splits option.splits prod.splits)
  from Cons.IH [OF r Cons.prems(2)] x show ?case by simp
qed

lemma getPrincipals_resolveGroups:
  assumes "Entries result = entry # es"
    and "permissionCheck d (Attributes entry) config"
    and "userMemberAttributeOf d entry opResult config = Some uma"
    and "IsType d (Attributes entry) (UserObjectClass config)"
    and "AttributesToPrincipal d (Attributes entry) (DN entry) (userScope p) (providerName p)
           (UserObjectClass config) (UserNameAttribute config) (UserLoginAttribute config)
           (GroupObjectClass config) (GroupNameAttribute config) = (Some userPrincipal, None)"
  shows "getPrincipalsFromSearchResult d p gather lConn result opResult config c
           = resolveGroups d p gather lConn entry opResult config userPrincipal uma c"
  using assms by (simp add: getPrincipalsFromSearchResult_def)

lemma resolveGroups_nested:
  assumes "forwardLoop d p lConn config uma 0 [] c = Return ((gps1, None), c1)"
    and "reverseStep d p lConn entry opResult config gps1 c1 = Return ((gps2, None), c2)"
    and "fallbackStep d p lConn config (DN entry) gps2 c2 = Return ((gps3, None, freeipa), c3)"
  shows "resolveGroups d p gather lConn entry opResult config userPrincipal uma c
           = (if nestedGate p config freeipa
              then nestedStep d p gather lConn config userPrincipal gps3 c3
              else Return ((userPrincipal, gps3, None), c3))"
  using assms by (simp add: resolveGroups_def)

text \<open>
  C8.  When the call of \<open>GatherParentGroups\<close> for one of the groups returns an error
  (the calls for the groups before it having succeeded), \<open>getPrincipalsFromSearchResult\<close>
  returns at once the user principal and the group principals found before the nested-group
  block, with a nil error: the error of the traversal does not reach the caller.
\<close>

theorem nested_traversal_error_absorbed:
  assumes "Entries result = entry # es"
    and "permissionCheck d (Attributes entry) config"
    and "userMemberAttributeOf d entry opResult config = Some uma"
    and "IsType d (Attributes entry) (UserObjectClass config)"
    and "AttributesToPrincipal d (Attributes entry) (DN entry) (userScope p) (providerName p)
           (UserObjectClass config) (UserNameAttribute config) (UserLoginAttribute config)
           (GroupObjectClass config) (GroupNameAttribute config) = (Some userPrincipal, None)"
    and "forwardLoop d p lConn config uma 0 [] c = Return ((gps1, None), c1)"
    and "reverseStep d p lConn entry opResult config gps1 c1 = Return ((gps2, None), c2)"
    and "fallbackStep d p lConn config (DN entry) gps2 c2
           = Return ((groupPrincipals, None, freeipa), c3)"
    and "nestedGate p config freeipa"
    and "groupPrincipals = done @ g # rest"
    and "gatherAll gather (nestedSearchDomain config) (groupScope p) (commonConfigOf d config)
           lConn (nestedSearchAttributes config) done Map.empty [] c3
           = Return ((None, gm, nested), c4)"
    and "gather g (nestedSearchDomain config) (groupScope p) (commonConfigOf d config) lConn
           gm nested (nestedSearchAttributes config) c4 = Return ((Some e, gm', nested'), c5)"
  shows "getPrincipalsFromSearchResult d p gather lConn result opResult config c
           = Return ((userPrincipal, groupPrincipals, None), c5)"
proof -
  have "gatherAll gather (nestedSearchDomain config) (groupScope p) (commonConfigOf d config)
           lConn (nestedSearchAttributes config) groupPrincipals Map.empty [] c3
          = Return ((Some e, gm', nested'), c5)"
    unfolding assms(10) by (rule gatherAll_fails_at [OF assms(11) assms(12)])
  then have "nestedStep d p gather lConn config userPrincipal groupPrincipals c3
               = Return ((userPrincipal, groupPrincipals, None), c5)"
    by (simp add: nestedStep_def)
  then show ?thesis
    by (simp add: getPrincipals_resolveGroups [OF assms(1-5)] resolveGroups_nested [OF assms(6-8)]
        assms(9))
qed

lemma ex_alice:
  "Attributes exAlice = [\<lparr>Name = ''objectClass'', Values = [''inetOrgPerson'']\<rparr>,
                    \<lparr>Name = ''uid'', Values = [''alice'']\<rparr>,
                    \<lparr>Name = ''cn'', Values = [''Alice'']\<rparr>]"
  "DN exAlice = ''uid=alice,dc=x''"
  by (simp_all add: exAlice_def)

lemma ex_no_forward:
  "userMemberAttributeOf exDeps exAlice \<lparr>Entries = [exAlice]\<rparr> exConfig = Some []"
  by (simp add: userMemberAttributeOf_def ex_values ex_config ex_alice exAttrValues_def)

lemma ex_no_reverse:
  "groupMemberUserAttributeOf exDeps exAlice \<lparr>Entries = [exAlice]\<rparr> exConfig = Some []"
  by (simp add: groupMemberUserAttributeOf_def ex_values ex_config ex_alice exAttrValues_def)

lemma ex_eng_id:
  "identifyingValue exEngPrincipal = ''cn=eng,dc=x''"
  by (simp add: identifyingValue_def exEngPrincipal_def)

lemma ex_common:
  "ca_GroupMemberMappingAttribute (commonConfigOf exDeps exConfig) = ''member''"
  "ca_ObjectClass (commonConfigOf exDeps exConfig) = ''objectClass''"
  "ca_GroupObjectClass (commonConfigOf exDeps exConfig) = ''groupOfNames''"
  "ca_ProviderName (commonConfigOf exDeps exConfig) = ''openldap''"
  "ca_UserObjectClass (commonConfigOf exDeps exConfig) = ''inetOrgPerson''"
  "ca_UserNameAttribute (commonConfigOf exDeps exConfig) = ''cn''"
  "ca_UserLoginAttribute (commonConfigOf exDeps exConfig) = ''uid''"
  "ca_GroupNameAttribute (commonConfigOf exDeps exConfig) = ''cn''"
  by (simp_all add: commonConfigOf_def ex_config ex_values ObjectClass_def)

lemma ex_parent_filter_eng:
  "Filter (parentRequest exDeps sd (commonConfigOf exDeps exConfig) sa exEngPrincipal)
     = ''(&(member=cn=eng,dc=x)(objectClass=groupOfNames))''"
  by (simp add: parentRequest_def NewWholeSubtreeSearchRequest_def ex_common ex_values
      ex_sanitize ex_escape ex_eng_id)

lemma ex_gather_fails:
  "GatherParentGroups exDeps exEngPrincipal sd ''openldap_group'' (commonConfigOf exDeps exConfig)
     exNoParentsClient Map.empty [] sa ()
   = Return ((Some (LdapError 51), [ObjectMeta_Name exEngPrincipal \<mapsto> True], []), ())"
  by (simp add: GatherParentGroups_def gatherWorklist.simps [of _ _ _ _ _ _ "[_]"]
      exNoParentsClient_def ex_parent_filter_eng)

theorem nested_traversal_error_absorbed_witness:
  "nestedGate exProvider exConfig True
   \<and> GatherParentGroups exDeps exEngPrincipal (nestedSearchDomain exConfig) (groupScope exProvider)
       (commonConfigOf exDeps exConfig) exNoParentsClient Map.empty []
       (nestedSearchAttributes exConfig) ()
     = Return ((Some (LdapError 51), [ObjectMeta_Name exEngPrincipal \<mapsto> True], []), ())
   \<and> getPrincipalsFromSearchResult exDeps exProvider (GatherParentGroups exDeps) exNoParentsClient
       \<lparr>Entries = [exAlice]\<rparr> \<lparr>Entries = [exAlice]\<rparr> exConfig ()
     = Return ((exAlicePrincipal, [exEngPrincipal], None), ())"
proof -
  have h1: "Entries \<lparr>Entries = [exAlice]\<rparr> = exAlice # []" by simp
  have h2: "permissionCheck exDeps (Attributes exAlice) exConfig"
    by (simp add: permissionCheck_def ex_values)
  note h3 = ex_no_forward
  have h4: "IsType exDeps (Attributes exAlice) (UserObjectClass exConfig)"
    by (simp add: ex_values ex_config ex_alice exIsType_def exAttrValues_def)
  have h5: "AttributesToPrincipal exDeps (Attributes exAlice) (DN exAlice) (userScope exProvider)
              (providerName exProvider) (UserObjectClass exConfig) (UserNameAttribute exConfig)
              (UserLoginAttribute exConfig) (GroupObjectClass exConfig)
              (GroupNameAttribute exConfig) = (Some exAlicePrincipal, None)"
    by (simp add: ex_values ex_config ex_provider ex_principals)
  have h6: "forwardLoop exDeps exProvider exNoParentsClient exConfig [] 0 [] ()
              = Return (([], None), ())"
    by (simp add: forwardLoop.simps)
  have h7: "reverseStep exDeps exProvider exNoParentsClient exAlice \<lparr>Entries = [exAlice]\<rparr>
              exConfig [] () = Return (([], None), ())"
    by (simp add: reverseStep_def ex_no_reverse)
  have h8: "fallbackStep exDeps exProvider exNoParentsClient exConfig (DN exAlice) [] ()
              = Return (([exEngPrincipal], None, True), ())"
    by (simp add: fallbackStep_def ex_alice ex_provider ex_fallback_search)
  have h9: "nestedGate exProvider exConfig True" by (simp add: nestedGate_def)
  have h10: "[exEngPrincipal] = [] @ exEngPrincipal # []" by simp
  have h11: "gatherAll (GatherParentGroups exDeps) (nestedSearchDomain exConfig)
               (groupScope exProvider) (commonConfigOf exDeps exConfig) exNoParentsClient
               (nestedSearchAttributes exConfig) [] Map.empty [] ()
             = Return ((None, Map.empty, []), ())"
    by simp
  have h12: "GatherParentGroups exDeps exEngPrincipal (nestedSearchDomain exConfig)
               (groupScope exProvider) (commonConfigOf exDeps exConfig) exNoParentsClient
               Map.empty [] (nestedSearchAttributes exConfig) ()
             = Return ((Some (LdapError 51), [ObjectMeta_Name exEngPrincipal \<mapsto> True], []), ())"
    by (simp add: ex_provider ex_gather_fails)
  from nested_traversal_error_absorbed [OF h1 h2 h3 h4 h5 h6 h7 h8 h9 h10 h11 h12] h9 h12
  show ?thesis by simp
qed

subsection \<open>Group resolution: when the parent groups are traversed\<close>

lemma fallbackStep_flag:
  assumes "fallbackStep d p lConn config userDN gps2 c2 = Return ((gps3, None, freeipa), c3)"
  shows "freeipa = (gps2 = [])" and "gps2 \<noteq> [] \<Longrightarrow> gps3 = gps2 \<and> c3 = c2"
  using assms
  by (auto simp add: fallbackStep_def obind_def split: if_splits outcome.splits prod.splits)

lemma ex_staff_id:
  "identifyingValue exStaffPrincipal = ''cn=staff,dc=x''"
  by (simp add: identifyingValue_def exStaffPrincipal_def)

lemma ex_parent_filter_staff:
  "Filter (parentRequest exDeps sd (commonConfigOf exDeps exConfig) sa exStaffPrincipal)
     = ''(&(member=cn=staff,dc=x)(objectClass=groupOfNames))''"
  by (simp add: parentRequest_def NewWholeSubtreeSearchRequest_def ex_common ex_values
      ex_sanitize ex_escape ex_staff_id)

lemma ex_parents_of_eng:
  "parentPrincipals exDeps ''openldap_group'' (commonConfigOf exDeps exConfig) [exStaff]
     = [exStaffPrincipal]"
  by (simp add: parentPrincipals_def groupPrincipalOf_def ex_common
      ex_values ex_principals)

lemma ex_ids_differ:
  "ObjectMeta_Name exStaffPrincipal \<noteq> ObjectMeta_Name exEngPrincipal"
  by (simp add: exStaffPrincipal_def exEngPrincipal_def)

lemma gatherWorklist_nil:
  "gatherWorklist d sd gs cc lConn sa [] gm nested c = Some ((None, gm, nested), c)"
  by (subst gatherWorklist.simps) simp

lemma gatherWorklist_error:
  assumes "SearchWithPaging lConn (parentRequest d sd cc sa g) 1000 c = ((r, Some err), c')"
  shows "gatherWorklist d sd gs cc lConn sa (g # rest) gm nested c
           = Some ((Some err, gm, nested), c')"
  by (subst gatherWorklist.simps) (simp add: assms)

lemma gatherWorklist_step:
  assumes "SearchWithPaging lConn (parentRequest d sd cc sa g) 1000 c = ((r, None), c')"
    and "discover (parentPrincipals d gs cc (resultEntries r)) gm = (gm', new)"
  shows "gatherWorklist d sd gs cc lConn sa (g # rest) gm nested c
           = gatherWorklist d sd gs cc lConn sa (rest @ new) gm' (nested @ new) c'"
  by (subst gatherWorklist.simps) (simp add: assms)

lemma ex_paging:
  "SearchWithPaging exClient
     (parentRequest exDeps sd (commonConfigOf exDeps exConfig) sa exEngPrincipal) 1000 ()
     = ((Some \<lparr>Entries = [exStaff]\<rparr>, None), ())"
  "SearchWithPaging exClient
     (parentRequest exDeps sd (commonConfigOf exDeps exConfig) sa exStaffPrincipal) 1000 ()
     = ((Some \<lparr>Entries = []\<rparr>, None), ())"
  by (simp_all add: exClient_def exAnswer_def ex_parent_filter_eng ex_parent_filter_staff)

lemma ex_gather_eng:
  "GatherParentGroups exDeps exEngPrincipal sd ''openldap_group'' (commonConfigOf exDeps exConfig)
     exClient Map.empty [] sa ()
   = Return ((None, [ObjectMeta_Name exEngPrincipal \<mapsto> True,
                     ObjectMeta_Name exStaffPrincipal \<mapsto> True], [exStaffPrincipal]), ())"
proof -
  have d1: "discover (parentPrincipals exDeps ''openldap_group'' (commonConfigOf exDeps exConfig)
                        (resultEntries (Some \<lparr>Entries = [exStaff]\<rparr>)))
              [ObjectMeta_Name exEngPrincipal \<mapsto> True]
            = ([ObjectMeta_Name exEngPrincipal \<mapsto> True, ObjectMeta_Name exStaffPrincipal \<mapsto> True],
               [exStaffPrincipal])"
    by (simp add: resultEntries_def ex_parents_of_eng ex_ids_differ)
  have d2: "discover (parentPrincipals exDeps ''openldap_group'' (commonConfigOf exDeps exConfig)
                        (resultEntries (Some \<lparr>Entries = []\<rparr>)))
              [ObjectMeta_Name exEngPrincipal \<mapsto> True, ObjectMeta_Name exStaffPrincipal \<mapsto> True]
            = ([ObjectMeta_Name exEngPrincipal \<mapsto> True, ObjectMeta_Name exStaffPrincipal \<mapsto> True],
               [])"
    by (simp add: resultEntries_def parentPrincipals_def)
  show ?thesis
    by (simp add: GatherParentGroups_def gatherWorklist_step [OF ex_paging(1) d1]
        gatherWorklist_step [OF ex_paging(2) d2] gatherWorklist_nil)
qed

lemma ex_fallback_search_full:
  "searchLdap exDeps exProvider exClient (reverseQuery exDeps exConfig ''uid=alice,dc=x'')
     ''openldap_group'' exConfig () = Return (([exEngPrincipal], None), ())"
proof -
  have q: "reverseQuery exDeps exConfig ''uid=alice,dc=x''
             = ''(&(member=uid=alice,dc=x)(objectClass=groupOfNames))''"
    by (simp add: reverseQuery_def ex_values ex_config ex_sanitize ex_escape ObjectClass_def)
  show ?thesis
    unfolding q
    by (simp add: searchLdap_def index1_def ex_values ex_config ex_provider searchRequestFor_def
        NewWholeSubtreeSearchRequest_def exClient_def exAnswer_def searchErrorSurfaced_def
        externalIDOf_def ex_principals)
qed

lemma ex_alice_member:
  "Attributes exAliceMember = [\<lparr>Name = ''objectClass'', Values = [''inetOrgPerson'']\<rparr>,
                    \<lparr>Name = ''uid'', Values = [''alice'']\<rparr>,
                    \<lparr>Name = ''cn'', Values = [''Alice'']\<rparr>,
                    \<lparr>Name = ''memberOf'', Values = [''cn=eng,dc=x'']\<rparr>]"
  "DN exAliceMember = ''uid=alice,dc=x''"
  by (simp_all add: exAliceMember_def)

lemma ex_forward_search:
  "searchLdap exDeps exProvider exForwardClient (forwardQuery exDeps exConfig [''cn=eng,dc=x''])
     ''openldap_group'' exConfig () = Return (([exEngPrincipal], None), ())"
proof -
  have q: "forwardQuery exDeps exConfig [''cn=eng,dc=x'']
             = ''(&(objectClass=groupOfNames)(|(entryDN=cn=eng,dc=x)))''"
    by (simp add: forwardQuery_def ex_values ex_config ex_sanitize ex_escape ObjectClass_def)
  show ?thesis
    unfolding q
    by (simp add: searchLdap_def index1_def ex_values ex_config ex_provider searchRequestFor_def
        NewWholeSubtreeSearchRequest_def exForwardClient_def searchErrorSurfaced_def
        externalIDOf_def ex_principals)
qed

text \<open>
  C1 as stated fails.  In the example directory nested-group resolution is disabled, the user entry has neither
  membership attribute, and the fallback query by the DN of the user finds the one group
  \<open>eng\<close>.  The parent groups are traversed all the same, and the result holds \<open>eng\<close>
  and its parent \<open>staff\<close>.
\<close>

theorem fallback_groups_are_traversed:
  "\<not> NestedGroupMembershipEnabled exConfig
   \<and> forwardLoop exDeps exProvider exClient exConfig [] 0 [] () = Return (([], None), ())
   \<and> reverseStep exDeps exProvider exClient exAlice \<lparr>Entries = [exAlice]\<rparr> exConfig [] ()
       = Return (([], None), ())
   \<and> fallbackStep exDeps exProvider exClient exConfig (DN exAlice) [] ()
       = Return (([exEngPrincipal], None, True), ())
   \<and> getPrincipalsFromSearchResult exDeps exProvider (GatherParentGroups exDeps) exClient
       \<lparr>Entries = [exAlice]\<rparr> \<lparr>Entries = [exAlice]\<rparr> exConfig ()
     = Return ((exAlicePrincipal, [exEngPrincipal, exStaffPrincipal], None), ())
   \<and> [exEngPrincipal, exStaffPrincipal] \<noteq> [exEngPrincipal]"
proof -
  have h1: "Entries \<lparr>Entries = [exAlice]\<rparr> = exAlice # []" by simp
  have h2: "permissionCheck exDeps (Attributes exAlice) exConfig"
    by (simp add: permissionCheck_def ex_values)
  have h4: "IsType exDeps (Attributes exAlice) (UserObjectClass exConfig)"
    by (simp add: ex_values ex_config ex_alice exIsType_def exAttrValues_def)
  have h5: "AttributesToPrincipal exDeps (Attributes exAlice) (DN exAlice) (userScope exProvider)
              (providerName exProvider) (UserObjectClass exConfig) (UserNameAttribute exConfig)
              (UserLoginAttribute exConfig) (GroupObjectClass exConfig)
              (GroupNameAttribute exConfig) = (Some exAlicePrincipal, None)"
    by (simp add: ex_values ex_config ex_provider ex_principals)
  have h6: "forwardLoop exDeps exProvider exClient exConfig [] 0 [] () = Return (([], None), ())"
    by (simp add: forwardLoop.simps)
  have h7: "reverseStep exDeps exProvider exClient exAlice \<lparr>Entries = [exAlice]\<rparr>
              exConfig [] () = Return (([], None), ())"
    by (simp add: reverseStep_def ex_no_reverse)
  have h8: "fallbackStep exDeps exProvider exClient exConfig (DN exAlice) [] ()
              = Return (([exEngPrincipal], None, True), ())"
    by (simp add: fallbackStep_def ex_alice ex_provider ex_fallback_search_full)
  have h9: "nestedGate exProvider exConfig True" by (simp add: nestedGate_def)
  have n: "nestedStep exDeps exProvider (GatherParentGroups exDeps) exClient exConfig
             exAlicePrincipal [exEngPrincipal] ()
           = Return ((exAlicePrincipal, [exEngPrincipal, exStaffPrincipal], None), ())"
    by (simp add: nestedStep_def ex_provider ex_gather_eng ex_values specFindNonDuplicate_def
        ex_ids_differ)
  have r: "getPrincipalsFromSearchResult exDeps exProvider (GatherParentGroups exDeps) exClient
       \<lparr>Entries = [exAlice]\<rparr> \<lparr>Entries = [exAlice]\<rparr> exConfig ()
     = Return ((exAlicePrincipal, [exEngPrincipal, exStaffPrincipal], None), ())"
    by (simp add: getPrincipals_resolveGroups [OF h1 h2 ex_no_forward h4 h5]
        resolveGroups_nested [OF h6 h7 h8] h9 n)
  show ?thesis using h6 h7 h8 r by (simp add: ex_config)
qed

text \<open>
  C1 (amended).  Once the three group queries have gone through without error, the
  nested-group block runs exactly when nested-group resolution is enabled and the group
  scope is \<open>openldap_group\<close>, or the groups found before the fallback query were none
  (the fallback was used).  Otherwise the result is exactly the groups found before, and
  \<open>GatherParentGroups\<close> is not called.
\<close>

theorem nested_traversal_gate:
  assumes "Entries result = entry # es"
    and "permissionCheck d (Attributes entry) config"
    and "userMemberAttributeOf d entry opResult config = Some uma"
    and "IsType d (Attributes entry) (UserObjectClass config)"
    and "AttributesToPrincipal d (Attributes entry) (DN entry) (userScope p) (providerName p)
           (UserObjectClass config) (UserNameAttribute config) (UserLoginAttribute config)
           (GroupObjectClass config) (GroupNameAttribute config) = (Some userPrincipal, None)"
    and "forwardLoop d p lConn config uma 0 [] c = Return ((gps1, None), c1)"
    and "reverseStep d p lConn entry opResult config gps1 c1 = Return ((gps2, None), c2)"
    and "fallbackStep d p lConn config (DN entry) gps2 c2 = Return ((gps3, None, freeipa), c3)"
  shows "getPrincipalsFromSearchResult d p gather lConn result opResult config c
           = (if (NestedGroupMembershipEnabled config \<and> groupScope p = ''openldap_group'')
                   \<or> gps2 = []
              then nestedStep d p gather lConn config userPrincipal gps3 c3
              else Return ((userPrincipal, gps2, None), c2))"
proof -
  have f: "freeipa = (gps2 = [])" by (rule fallbackStep_flag(1) [OF assms(8)])
  have g: "gps2 \<noteq> [] \<Longrightarrow> gps3 = gps2 \<and> c3 = c2" by (rule fallbackStep_flag(2) [OF assms(8)])
  show ?thesis
    using f g
    by (auto simp add: getPrincipals_resolveGroups [OF assms(1-5)]
        resolveGroups_nested [OF assms(6-8)] nestedGate_def)
qed

theorem nested_traversal_gate_witness:
  "\<not> NestedGroupMembershipEnabled exConfig
   \<and> forwardLoop exDeps exProvider exForwardClient exConfig [''cn=eng,dc=x''] 0 [] ()
       = Return (([exEngPrincipal], None), ())
   \<and> getPrincipalsFromSearchResult exDeps exProvider (GatherParentGroups exDeps) exForwardClient
       \<lparr>Entries = [exAliceMember]\<rparr> \<lparr>Entries = [exAliceMember]\<rparr> exConfig ()
     = Return ((exAlicePrincipal, [exEngPrincipal], None), ())"
proof -
  have h1: "Entries \<lparr>Entries = [exAliceMember]\<rparr> = exAliceMember # []" by simp
  have h2: "permissionCheck exDeps (Attributes exAliceMember) exConfig"
    by (simp add: permissionCheck_def ex_values)
  have h3: "userMemberAttributeOf exDeps exAliceMember \<lparr>Entries = [exAliceMember]\<rparr> exConfig
              = Some [''cn=eng,dc=x'']"
    by (simp add: userMemberAttributeOf_def ex_values ex_config ex_alice_member exAttrValues_def)
  have h4: "IsType exDeps (Attributes exAliceMember) (UserObjectClass exConfig)"
    by (simp add: ex_values ex_config ex_alice_member exIsType_def exAttrValues_def)
  have h5: "AttributesToPrincipal exDeps (Attributes exAliceMember) (DN exAliceMember)
              (userScope exProvider) (providerName exProvider) (UserObjectClass exConfig)
              (UserNameAttribute exConfig) (UserLoginAttribute exConfig)
              (GroupObjectClass exConfig) (GroupNameAttribute exConfig)
            = (Some exAlicePrincipal, None)"
    by (simp add: ex_values ex_config ex_provider ex_alice_member exAttributesToPrincipal_def
        exIsType_def exAttrValues_def exFirstOr_def exAlicePrincipal_def)
  have h6: "forwardLoop exDeps exProvider exForwardClient exConfig [''cn=eng,dc=x''] 0 [] ()
              = Return (([exEngPrincipal], None), ())"
    by (simp add: forwardLoop.simps [of _ _ _ _ _ 0] forwardLoop.simps [of _ _ _ _ _ 50]
        slice_def ex_provider ex_forward_search)
  have h7: "reverseStep exDeps exProvider exForwardClient exAliceMember
              \<lparr>Entries = [exAliceMember]\<rparr> exConfig [exEngPrincipal] ()
            = Return (([exEngPrincipal], None), ())"
    by (simp add: reverseStep_def groupMemberUserAttributeOf_def ex_values ex_config
        ex_alice_member exAttrValues_def)
  have h8: "fallbackStep exDeps exProvider exForwardClient exConfig (DN exAliceMember)
              [exEngPrincipal] () = Return (([exEngPrincipal], None, False), ())"
    by (simp add: fallbackStep_def)
  have n: "\<not> NestedGroupMembershipEnabled exConfig" by (simp add: ex_config)
  from nested_traversal_gate [OF h1 h2 h3 h4 h5 h6 h7 h8, of "GatherParentGroups exDeps"] n h6
  show ?thesis by simp
qed

subsection \<open>Group resolution: the batches of the forward membership\<close>

lemma obind_cong_fun:
  assumes "\<And>x. f x = g x"
  shows "obind m f = obind m g"
  using assms by (simp add: obind_def split: outcome.split)

lemma batches_unfold:
  assumes "xs \<noteq> []"
  shows "batches n xs = take (Suc n) xs # batches n (drop (Suc n) xs)"
  using assms by (cases xs) simp_all

lemma slice_batch:
  assumes "i < length xs"
  shows "slice xs i (min (i + 50) (length xs)) = take 50 (drop i xs)"
  using assms by (simp add: slice_def min_def)

lemma forwardLoop_batches_from:
  "forwardLoop d p lConn config uma i gps c
     = searchBatches d p lConn config (batches 49 (drop i uma)) gps c"
proof (induction "length uma - i" arbitrary: i gps c rule: less_induct)
  case less
  show ?case
  proof (cases "i < length uma")
    case False
    then show ?thesis by (subst forwardLoop.simps) simp
  next
    case True
    then have ne: "drop i uma \<noteq> []" by simp
    have b: "batches 49 (drop i uma) = take 50 (drop i uma) # batches 49 (drop (i + 50) uma)"
      using batches_unfold [OF ne, of 49] by (simp add: add.commute)
    have ih: "\<And>gps' c'. forwardLoop d p lConn config uma (i + 50) gps' c'
                 = searchBatches d p lConn config (batches 49 (drop (i + 50) uma)) gps' c'"
      using True by (intro less) simp
    have "forwardLoop d p lConn config uma i gps c
            = obind (searchLdap d p lConn (forwardQuery d config (take 50 (drop i uma)))
                       (groupScope p) config c)
                (\<lambda>((found, err), c').
                   (case err of
                      Some e \<Rightarrow> Return ((gps @ found, Some e), c')
                    | None \<Rightarrow> forwardLoop d p lConn config uma (i + 50) (gps @ found) c'))"
      by (subst forwardLoop.simps) (simp add: True slice_batch [OF True])
    also have "\<dots> = searchBatches d p lConn config (batches 49 (drop i uma)) gps c"
      unfolding b searchBatches.simps
      by (rule obind_cong_fun) (simp add: ih split: prod.split option.split)
    finally show ?thesis .
  qed
qed

lemma concat_batches: "concat (batches n xs) = xs"
  by (induction n xs rule: batches.induct) (simp_all add: Let_def)

lemma batches_bounds:
  "b \<in> set (batches n xs) \<Longrightarrow> b \<noteq> [] \<and> length b \<le> Suc n"
  by (induction n xs rule: batches.induct) auto

lemma length_batches: "length (batches n xs) = (length xs + n) div Suc n"
proof (induction n xs rule: batches.induct)
  case (1 n)
  then show ?case by simp
next
  case (2 n x xs)
  have a: "Suc (length xs + n) div Suc n = (length xs + Suc n) div Suc n" by simp
  have b: "(length xs + Suc n) div Suc n = length xs div Suc n + 1"
    by (rule div_add_self2) simp
  have c: "(length xs - n + n) div Suc n = length xs div Suc n"
  proof (cases "n \<le> length xs")
    case True
    then show ?thesis by simp
  next
    case False
    then show ?thesis by simp
  qed
  show ?case using 2 a b c by simp
qed

text \<open>
  C2 as stated fails.  The results of the batches are appended, not merged: for 51 group DNs whose first and last
  name the group \<open>eng\<close>, the two batches each return \<open>eng\<close> and the accumulated
  principals hold it twice, where the one query over all 51 DNs returns it once.
\<close>

theorem forward_batches_keep_duplicates:
  "length exAliasDNs = 51
   \<and> forwardLoop exDeps exProvider exAliasClient exConfig exAliasDNs 0 [] ()
       = Return (([exEngPrincipal, exEngPrincipal], None), ())
   \<and> \<not> distinct (map ObjectMeta_Name [exEngPrincipal, exEngPrincipal])
   \<and> searchBatches exDeps exProvider exAliasClient exConfig [exAliasDNs] [] ()
       = Return (([exEngPrincipal], None), ())"
  by code_simp

text \<open>
  C2 (amended).  The batch loop issues one group query per batch of the partition of the DN
  list into consecutive batches of at most 50 DNs, in order, up to the first error; the
  batches are not empty, cover every DN exactly once (their concatenation is the list) and
  number \<open>\<lceil>n / 50\<rceil>\<close>; the accumulated principals are the results of the batches
  appended in that order, without de-duplication across batches.
\<close>

theorem forward_batches:
  "forwardLoop d p lConn config uma 0 groupPrincipals c
     = searchBatches d p lConn config (batches 49 uma) groupPrincipals c
   \<and> concat (batches 49 uma) = uma
   \<and> (\<forall>b \<in> set (batches 49 uma). b \<noteq> [] \<and> length b \<le> 50)
   \<and> length (batches 49 uma) = (length uma + 49) div 50"
  using forwardLoop_batches_from [of d p lConn config uma 0 groupPrincipals c]
    batches_bounds [of _ 49 uma] length_batches [of 49 uma]
  by (auto simp add: concat_batches)

theorem forward_batches_witness:
  "length ex120DNs = 120
   \<and> map length (batches 49 ex120DNs) = [50, 50, 20]
   \<and> forwardLoop exDeps exProvider exClient exConfig ex120DNs 0 [] ()
       = searchBatches exDeps exProvider exClient exConfig (batches 49 ex120DNs) [] ()"
proof -
  have a: "length ex120DNs = 120" by code_simp
  have b: "map length (batches 49 ex120DNs) = [50, 50, 20]" by code_simp
  from forward_batches [of exDeps exProvider exClient exConfig ex120DNs "[]" "()"] a b
  show ?thesis by simp
qed

subsection \<open>The traversal of the parent groups ends\<close>

lemma discover_inv:
  "discover ps gm = (gm', new) \<Longrightarrow>
     dom gm' = dom gm \<union> ObjectMeta_Name ` set new
     \<and> set new \<subseteq> set ps
     \<and> distinct (map ObjectMeta_Name new)
     \<and> ObjectMeta_Name ` set new \<inter> dom gm = {}"
proof (induction ps arbitrary: gm gm' new)
  case Nil
  then show ?case by simp
next
  case (Cons g gs)
  show ?case
  proof (cases "gm (ObjectMeta_Name g) \<noteq> None")
    case True
    with Cons.prems have "discover gs gm = (gm', new)" by simp
    from Cons.IH [OF this] show ?thesis by auto
  next
    case False
    obtain gm1 new1 where r: "discover gs (gm(ObjectMeta_Name g \<mapsto> True)) = (gm1, new1)"
      by (cases "discover gs (gm(ObjectMeta_Name g \<mapsto> True))") auto
    with Cons.prems False have e: "gm' = gm1" "new = g # new1" by simp_all
    note ih = Cons.IH [OF r]
    have t: "dom (gm(ObjectMeta_Name g \<mapsto> True)) = insert (ObjectMeta_Name g) (dom gm)"
      by simp
    have ih1: "dom gm1 = insert (ObjectMeta_Name g) (dom gm) \<union> ObjectMeta_Name ` set new1"
      using ih [THEN conjunct1] unfolding t .
    have ih2: "set new1 \<subseteq> set gs" using ih [THEN conjunct2, THEN conjunct1] .
    have ih3: "distinct (map ObjectMeta_Name new1)"
      using ih [THEN conjunct2, THEN conjunct2, THEN conjunct1] .
    have ih4: "ObjectMeta_Name ` set new1 \<inter> insert (ObjectMeta_Name g) (dom gm) = {}"
      using ih [THEN conjunct2, THEN conjunct2, THEN conjunct2] unfolding t .
    have n: "ObjectMeta_Name g \<notin> dom gm" using False by (simp add: dom_def)
    have m: "ObjectMeta_Name g \<notin> ObjectMeta_Name ` set new1" using ih4 by blast
    have 1: "dom gm' = dom gm \<union> ObjectMeta_Name ` set new" unfolding e using ih1 by auto
    have 2: "set new \<subseteq> set (g # gs)" unfolding e using ih2 by auto
    have 3: "distinct (map ObjectMeta_Name new)" unfolding e using ih3 m by simp
    have 4: "ObjectMeta_Name ` set new \<inter> dom gm = {}" unfolding e using ih4 n by auto
    show ?thesis using 1 2 3 4 by blast
  qed
qed

lemma discover_nil:
  "discover ps gm = (gm', []) \<Longrightarrow> gm' = gm"
proof (induction ps arbitrary: gm)
  case Nil
  then show ?case by simp
next
  case (Cons g gs)
  then show ?case by (auto split: if_splits prod.splits)
qed


lemma parentPrincipals_from:
  "pr \<in> set (parentPrincipals d gs cc es) \<Longrightarrow> \<exists>e \<in> set es. groupPrincipalOf d gs cc e = Some pr"
  by (induction es) (auto simp add: parentPrincipals_def split: option.splits)

lemma gatherWorklist_returns:
  fixes lConn :: "'c Client"
  assumes fin: "finite U"
    and sub: "\<And>req n c. set (resultEntries (fst (fst (SearchWithPaging lConn req n c)))) \<subseteq> U"
  shows "distinct (map ObjectMeta_Name nested) \<Longrightarrow> ObjectMeta_Name ` set nested \<subseteq> dom gm \<Longrightarrow>
         \<exists>err gm' nested' c'.
           gatherWorklist d sd gs cc lConn sa wl gm nested c = Some ((err, gm', nested'), c')
           \<and> distinct (map ObjectMeta_Name nested')
           \<and> ObjectMeta_Name ` set nested' \<subseteq> dom gm'"
proof -
  define P where "P = ObjectMeta_Name ` {pr. \<exists>e \<in> U. groupPrincipalOf d gs cc e = Some pr}"
  have "{pr. \<exists>e \<in> U. groupPrincipalOf d gs cc e = Some pr}
          \<subseteq> the ` (groupPrincipalOf d gs cc ` U)"
    by force
  then have finP: "finite P"
    unfolding P_def using fin by (meson finite_imageI finite_subset)
  have inP: "\<And>req n c pr.
      pr \<in> set (parentPrincipals d gs cc
                   (resultEntries (fst (fst (SearchWithPaging lConn req n c)))))
      \<Longrightarrow> ObjectMeta_Name pr \<in> P"
    using parentPrincipals_from sub unfolding P_def by blast
  show "distinct (map ObjectMeta_Name nested) \<Longrightarrow> ObjectMeta_Name ` set nested \<subseteq> dom gm \<Longrightarrow>
         \<exists>err gm' nested' c'.
           gatherWorklist d sd gs cc lConn sa wl gm nested c = Some ((err, gm', nested'), c')
           \<and> distinct (map ObjectMeta_Name nested')
           \<and> ObjectMeta_Name ` set nested' \<subseteq> dom gm'"
  proof (induction "card (P - dom gm)" arbitrary: gm wl nested c rule: less_induct)
    case outer: less
    show ?case
      using outer.prems
    proof (induction "length wl" arbitrary: wl nested c rule: less_induct)
      case inner: less
      show ?case
      proof (cases wl)
        case Nil
        then show ?thesis using inner.prems by (simp add: gatherWorklist_nil)
      next
        case (Cons g rest)
        obtain r e c' where s:
          "SearchWithPaging lConn (parentRequest d sd cc sa g) 1000 c = ((r, e), c')"
          by (metis prod.exhaust)
        show ?thesis
        proof (cases e)
          case (Some err)
          then show ?thesis
            using inner.prems Cons s by (simp add: gatherWorklist_error)
        next
          case None
          obtain gm' new where dsc:
            "discover (parentPrincipals d gs cc (resultEntries r)) gm = (gm', new)"
            by (metis prod.exhaust)
          note inv = discover_inv [OF dsc]
          have step: "gatherWorklist d sd gs cc lConn sa wl gm nested c
                        = gatherWorklist d sd gs cc lConn sa (rest @ new) gm' (nested @ new) c'"
            unfolding Cons using s None dsc by (simp add: gatherWorklist_step)
          have r_eq: "r = fst (fst (SearchWithPaging lConn (parentRequest d sd cc sa g) 1000 c))"
            using s by simp
          have newP: "ObjectMeta_Name ` set new \<subseteq> P"
            using inv inP [of _ "parentRequest d sd cc sa g" 1000 c] r_eq by auto
          have disj: "ObjectMeta_Name ` set nested \<inter> ObjectMeta_Name ` set new = {}"
            using inner.prems(2) inv by blast
          have dist': "distinct (map ObjectMeta_Name (nested @ new))"
            using inner.prems(1) inv disj by simp
          have dom': "ObjectMeta_Name ` set (nested @ new) \<subseteq> dom gm'"
            using inner.prems inv by auto
          show ?thesis
          proof (cases "new = []")
            case True
            then have g: "gm' = gm" using discover_nil dsc by simp
            have "length (rest @ new) < length wl" using True Cons by simp
            from inner.hyps [OF this] inner.prems True g step show ?thesis by simp
          next
            case False
            then obtain x where x: "x \<in> set new" by (cases new) auto
            then have xin: "ObjectMeta_Name x \<in> P - dom gm" using newP inv by auto
            have xout: "ObjectMeta_Name x \<notin> P - dom gm'" using x inv by auto
            have "P - dom gm' \<subseteq> P - dom gm" using inv by auto
            then have "P - dom gm' \<subset> P - dom gm" using xin xout by blast
            then have "card (P - dom gm') < card (P - dom gm)"
              using finP by (simp add: psubset_card_mono)
            from outer.hyps [OF this dist' dom'] step show ?thesis by simp
          qed
        qed
      qed
    qed
  qed
qed


lemma GatherParentGroups_returns:
  fixes lConn :: "'c Client"
  assumes fin: "finite U"
    and sub: "\<And>req n c. set (resultEntries (fst (fst (SearchWithPaging lConn req n c)))) \<subseteq> U"
    and dist: "distinct (map ObjectMeta_Name nested)"
    and vis: "ObjectMeta_Name ` set nested \<subseteq> dom gm"
  shows "\<exists>err gm' nested' c'.
           GatherParentGroups d gp sd gs cc lConn gm nested sa c = Return ((err, gm', nested'), c')
           \<and> distinct (map ObjectMeta_Name nested')
           \<and> ObjectMeta_Name ` set nested' \<subseteq> dom gm'"
proof (cases "gm (ObjectMeta_Name gp) \<noteq> None")
  case True
  then show ?thesis using dist vis by (simp add: GatherParentGroups_def)
next
  case False
  have vis': "ObjectMeta_Name ` set nested \<subseteq> dom (gm(ObjectMeta_Name gp \<mapsto> True))"
    using vis by auto
  from gatherWorklist_returns [OF fin sub dist vis', of d sd gs cc sa "[gp]" c]
  show ?thesis using False by (auto simp add: GatherParentGroups_def)
qed

lemma gatherAll_returns:
  fixes lConn :: "'c Client"
  assumes fin: "finite U"
    and sub: "\<And>req n c. set (resultEntries (fst (fst (SearchWithPaging lConn req n c)))) \<subseteq> U"
  shows "distinct (map ObjectMeta_Name nested) \<Longrightarrow> ObjectMeta_Name ` set nested \<subseteq> dom gm \<Longrightarrow>
         \<exists>err gm' nested' c'.
           gatherAll (GatherParentGroups d) sd gs cc lConn sa gps gm nested c
             = Return ((err, gm', nested'), c')
           \<and> distinct (map ObjectMeta_Name nested')"
proof (induction gps arbitrary: gm nested c)
  case Nil
  then show ?case by simp
next
  case (Cons g gps)
  from GatherParentGroups_returns [OF fin sub Cons.prems, of d g sd gs cc sa c]
  obtain err gm1 nested1 c1 where
    g: "GatherParentGroups d g sd gs cc lConn gm nested sa c = Return ((err, gm1, nested1), c1)"
    and d1: "distinct (map ObjectMeta_Name nested1)"
    and v1: "ObjectMeta_Name ` set nested1 \<subseteq> dom gm1"
    by blast
  show ?case
  proof (cases err)
    case None
    from Cons.IH [OF d1 v1, of c1] g None show ?thesis by simp
  next
    case (Some e)
    then show ?thesis using g d1 by simp
  qed
qed

lemma specFindNonDuplicate_fresh:
  assumes "distinct (map ObjectMeta_Name nested)"
  shows "distinct (map ObjectMeta_Name (specFindNonDuplicate nested gps []))"
    and "ObjectMeta_Name ` set (specFindNonDuplicate nested gps []) \<inter> ObjectMeta_Name ` set gps = {}"
  using assms by (auto simp add: specFindNonDuplicate_def distinct_map_filter)

lemma ex_cyclic_paging:
  "SearchWithPaging exCyclicClient
     (parentRequest exDeps sd (commonConfigOf exDeps exConfig) sa exEngPrincipal) 1000 ()
     = ((Some \<lparr>Entries = [exStaff]\<rparr>, None), ())"
  "SearchWithPaging exCyclicClient
     (parentRequest exDeps sd (commonConfigOf exDeps exConfig) sa exStaffPrincipal) 1000 ()
     = ((Some \<lparr>Entries = [exEng]\<rparr>, None), ())"
  by (simp_all add: exCyclicClient_def ex_parent_filter_eng ex_parent_filter_staff)

lemma ex_parents_of_staff:
  "parentPrincipals exDeps ''openldap_group'' (commonConfigOf exDeps exConfig) [exEng]
     = [exEngPrincipal]"
  by (simp add: parentPrincipals_def groupPrincipalOf_def ex_common
      ex_values ex_principals)

lemma ex_gather_cycle:
  "GatherParentGroups exDeps exEngPrincipal sd ''openldap_group'' (commonConfigOf exDeps exConfig)
     exCyclicClient Map.empty [] sa ()
   = Return ((None, [ObjectMeta_Name exEngPrincipal \<mapsto> True,
                     ObjectMeta_Name exStaffPrincipal \<mapsto> True], [exStaffPrincipal]), ())"
proof -
  have d1: "discover (parentPrincipals exDeps ''openldap_group'' (commonConfigOf exDeps exConfig)
                        (resultEntries (Some \<lparr>Entries = [exStaff]\<rparr>)))
              [ObjectMeta_Name exEngPrincipal \<mapsto> True]
            = ([ObjectMeta_Name exEngPrincipal \<mapsto> True, ObjectMeta_Name exStaffPrincipal \<mapsto> True],
               [exStaffPrincipal])"
    by (simp add: resultEntries_def ex_parents_of_eng ex_ids_differ)
  have d2: "discover (parentPrincipals exDeps ''openldap_group'' (commonConfigOf exDeps exConfig)
                        (resultEntries (Some \<lparr>Entries = [exEng]\<rparr>)))
              [ObjectMeta_Name exEngPrincipal \<mapsto> True, ObjectMeta_Name exStaffPrincipal \<mapsto> True]
            = ([ObjectMeta_Name exEngPrincipal \<mapsto> True, ObjectMeta_Name exStaffPrincipal \<mapsto> True],
               [])"
    using ex_ids_differ by (simp add: resultEntries_def ex_parents_of_staff)
  show ?thesis
    by (simp add: GatherParentGroups_def gatherWorklist_step [OF ex_cyclic_paging(1) d1]
        gatherWorklist_step [OF ex_cyclic_paging(2) d2] gatherWorklist_nil)
qed

text \<open>
  C3.  On every membership graph, that is a connection whose paged searches only ever return
  entries of a finite set, cycles or not, the nested-group block with the worklist traversal
  over the shared visited map returns; the groups it adds to the result are pairwise
  different in their ids and different from the groups already there.
\<close>

theorem nested_traversal_terminates:
  fixes lConn :: "'c Client"
  assumes "finite U"
    and "\<And>req n c. set (resultEntries (fst (fst (SearchWithPaging lConn req n c)))) \<subseteq> U"
    and "FindNonDuplicateBetweenGroupPrincipals d = specFindNonDuplicate"
  shows "\<exists>added c'.
           nestedStep d p (GatherParentGroups d) lConn config userPrincipal groupPrincipals c
             = Return ((userPrincipal, groupPrincipals @ added, None), c')
           \<and> distinct (map ObjectMeta_Name added)
           \<and> ObjectMeta_Name ` set added \<inter> ObjectMeta_Name ` set groupPrincipals = {}"
proof -
  from gatherAll_returns [OF assms(1) assms(2), of "[]" Map.empty d "nestedSearchDomain config"
      "groupScope p" "commonConfigOf d config" "nestedSearchAttributes config" groupPrincipals c]
  obtain err gm' nested' c' where
    r: "gatherAll (GatherParentGroups d) (nestedSearchDomain config) (groupScope p)
          (commonConfigOf d config) lConn (nestedSearchAttributes config) groupPrincipals
          Map.empty [] c = Return ((err, gm', nested'), c')"
    and dn: "distinct (map ObjectMeta_Name nested')"
    by auto
  show ?thesis
  proof (cases err)
    case (Some e)
    then have "nestedStep d p (GatherParentGroups d) lConn config userPrincipal groupPrincipals c
             = Return ((userPrincipal, groupPrincipals @ [], None), c')"
      using r by (simp add: nestedStep_def)
    then show ?thesis by (intro exI [of _ "[]"] exI [of _ c']) simp
  next
    case None
    then have "nestedStep d p (GatherParentGroups d) lConn config userPrincipal groupPrincipals c
             = Return ((userPrincipal,
                        groupPrincipals @ specFindNonDuplicate nested' groupPrincipals [], None), c')"
      using r assms(3) by (simp add: nestedStep_def)
    then show ?thesis
      using specFindNonDuplicate_fresh [OF dn, of groupPrincipals]
      by (intro exI [of _ "specFindNonDuplicate nested' groupPrincipals []"] exI [of _ c']) simp
  qed
qed

theorem nested_traversal_terminates_witness:
  "finite {exEng, exStaff}
   \<and> (\<forall>req n c. set (resultEntries (fst (fst (SearchWithPaging exCyclicClient req n c))))
                    \<subseteq> {exEng, exStaff})
   \<and> nestedStep exDeps exProvider (GatherParentGroups exDeps) exCyclicClient exConfig
       exAlicePrincipal [exEngPrincipal] ()
     = Return ((exAlicePrincipal, [exEngPrincipal] @ [exStaffPrincipal], None), ())
   \<and> ObjectMeta_Name ` set [exStaffPrincipal] \<inter> ObjectMeta_Name ` set [exEngPrincipal] = {}"
proof -
  have a: "finite {exEng, exStaff}" by simp
  have b: "\<And>req n c. set (resultEntries (fst (fst (SearchWithPaging exCyclicClient req n c))))
                    \<subseteq> {exEng, exStaff}"
    by (simp add: exCyclicClient_def resultEntries_def)
  have c: "FindNonDuplicateBetweenGroupPrincipals exDeps = specFindNonDuplicate"
    by (simp add: ex_values)
  from nested_traversal_terminates [OF a b c, of exProvider exConfig exAlicePrincipal
      "[exEngPrincipal]" "()"]
  obtain added c' where
    r: "nestedStep exDeps exProvider (GatherParentGroups exDeps) exCyclicClient exConfig
          exAlicePrincipal [exEngPrincipal] ()
        = Return ((exAlicePrincipal, [exEngPrincipal] @ added, None), c')"
    and f: "ObjectMeta_Name ` set added \<inter> ObjectMeta_Name ` set [exEngPrincipal] = {}"
    by blast
  have e: "nestedStep exDeps exProvider (GatherParentGroups exDeps) exCyclicClient exConfig
             exAlicePrincipal [exEngPrincipal] ()
           = Return ((exAlicePrincipal, [exEngPrincipal] @ [exStaffPrincipal], None), ())"
    by (simp add: nestedStep_def ex_provider ex_gather_cycle ex_values specFindNonDuplicate_def
        ex_ids_differ)
  from r e have "added = [exStaffPrincipal]" by simp
  with f have g: "ObjectMeta_Name ` set [exStaffPrincipal]
                    \<inter> ObjectMeta_Name ` set [exEngPrincipal] = {}" by simp
  show ?thesis using a b e g by blast
qed

end
